theory Spec2Isabelle
  imports Complex_Main "HOL-Library.Log_Nat"
begin

section \<open>RentEase: booking lifecycle and wallet ledger\<close>

text \<open>
  A shallow embedding of the booking controller
  (\<^verbatim>\<open>server/controllers/bookingController.js\<close>), the Booking model
  (\<^verbatim>\<open>calculatePricing\<close>, \<^verbatim>\<open>addTimelineEntry\<close>, the pre-save hook), the wallet
  part of the User model, \<^verbatim>\<open>extendRentalPeriod\<close> of the item controller,
  \<^verbatim>\<open>addToWallet\<close> of the auth controller and the two admin handlers that write
  wallets or bookings.

  Conventions.
  \<^item> A JavaScript Number is the rational it denotes (\<^typ>\<open>rat\<close>), and every
    arithmetic operation of the code rounds its exact result to the nearest IEEE
    754 double, ties to even, as \<^verbatim>\<open>+\<close>, \<^verbatim>\<open>-\<close>, \<^verbatim>\<open>*\<close>, \<^verbatim>\<open>/\<close> and MongoDB's
    \<^verbatim>\<open>$inc\<close> on doubles do. A stored Number is taken to be a double: the integer
    types in which the driver stores whole numbers that fit 32 bits give the same
    sums up to \<open>2\<^sup>5\<^sup>3\<close>. A result beyond the largest double is \<open>jsInfinity\<close>;
    arithmetic on \<^verbatim>\<open>Infinity\<close> and NaN, and signed zeros, are not modelled: the
    amounts are finite.
  \<^item> A Date is its number of milliseconds since the epoch (\<^typ>\<open>int\<close>); request
    dates are the ones that parse. The difference of two Dates is the difference of
    their numbers of milliseconds as Numbers.
  \<^item> A MongoDB ObjectId is a \<^typ>\<open>nat\<close>. The users and items collections are maps
    from ids; the bookings collection is a list whose positions are the ids
    (bookings are only ever appended or overwritten, never deleted).
  \<^item> Every handler returns the HTTP outcome together with the database as it is
    when the response is sent. A JavaScript exception inside the handler's
    \<^verbatim>\<open>try\<close> block is the outcome \<open>ServerError\<close> (status 500) with the writes made
    so far kept, as \<^verbatim>\<open>findByIdAndUpdate\<close> commits each of them on its own.
  \<^item> Timestamps (\<^verbatim>\<open>Date.now\<close> defaults) are left out of the documents.
\<close>

subsection \<open>Numbers\<close>

text \<open>
  \<open>twoPow e\<close> is \<open>2\<^sup>e\<close> for any integer \<open>e\<close>, and \<open>floorLog2 x\<close> the integer
  \<open>e\<close> with \<open>2\<^sup>e \<le> x < 2\<^sup>e\<^sup>+\<^sup>1\<close> for a positive \<open>x = p / q\<close>: the
  difference of the bit lengths of \<open>p\<close> and \<open>q\<close>, or one less.
\<close>

definition twoPow :: "int \<Rightarrow> rat" where
  "twoPow e = (if 0 \<le> e then 2 ^ nat e else 1 / 2 ^ nat (- e))"

definition floorLog2 :: "rat \<Rightarrow> int" where
  "floorLog2 x = (let (p, q) = quotient_of x; k = bitlen p - bitlen q
                  in if twoPow k \<le> x then k else k - 1)"

definition roundHalfEven :: "rat \<Rightarrow> int" where
  "roundHalfEven x = (let f = \<lfloor>x\<rfloor>; r = x - of_int f
                      in if r < 1 / 2 then f else if 1 / 2 < r then f + 1
                         else if even f then f else f + 1)"

text \<open>
  Rounding to binary64: a double is an integer multiple of \<open>2\<^sup>e\<^sup>-\<^sup>5\<^sup>2\<close> with
  at most 53 bits, where \<open>e\<close> is the exponent of the value and at least \<open>-1022\<close>
  (below that the doubles are the multiples of \<open>2\<^sup>-\<^sup>1\<^sup>0\<^sup>7\<^sup>4\<close>). A result whose
  rounding reaches \<open>2\<^sup>1\<^sup>0\<^sup>2\<^sup>4\<close> is \<^verbatim>\<open>Infinity\<close>, for which \<open>jsInfinity\<close>
  stands (it is no double, so no finite result is confused with it).
\<close>

definition jsInfinity :: rat where
  "jsInfinity = twoPow 1024"

definition toDouble :: "rat \<Rightarrow> rat" where
  "toDouble x =
     (if x = 0 then 0
      else let e = max (floorLog2 \<bar>x\<bar>) (- 1022);
               n = roundHalfEven (x / twoPow (e - 52))
           in if 1023 < e \<or> (e = 1023 \<and> \<bar>n\<bar> = 2 ^ 53) then sgn x * jsInfinity
              else of_int n * twoPow (e - 52))"

text \<open>The operators \<^verbatim>\<open>+\<close>, \<^verbatim>\<open>-\<close>, \<^verbatim>\<open>*\<close> and \<^verbatim>\<open>/\<close> on Numbers.\<close>

definition jsAdd :: "rat \<Rightarrow> rat \<Rightarrow> rat" where
  "jsAdd a b = toDouble (a + b)"

definition jsSub :: "rat \<Rightarrow> rat \<Rightarrow> rat" where
  "jsSub a b = toDouble (a - b)"

definition jsMul :: "rat \<Rightarrow> rat \<Rightarrow> rat" where
  "jsMul a b = toDouble (a * b)"

definition jsDiv :: "rat \<Rightarrow> rat \<Rightarrow> rat" where
  "jsDiv a b = toDouble (a / b)"

text \<open>
  \<^verbatim>\<open>Math.ceil\<close> and \<^verbatim>\<open>Math.round\<close> (halves go up): both are exact, their
  result on a double is a double.
\<close>

definition Math_ceil :: "rat \<Rightarrow> rat" where
  "Math_ceil x = of_int \<lceil>x\<rceil>"

definition Math_round :: "rat \<Rightarrow> rat" where
  "Math_round x = of_int \<lfloor>x + 1 / 2\<rfloor>"

subsection \<open>Documents\<close>

type_synonym id = nat
type_synonym date = int

datatype tx_type = Credit | Debit

text \<open>The description templates of the wallet transactions, with their parameter.\<close>

datatype tx_description =
    BookingPayment string      \<comment> \<open>\<^verbatim>\<open>Booking payment for ${title}\<close>\<close>
  | CancelRefund string        \<comment> \<open>\<^verbatim>\<open>Refund for cancelled booking: ${title}\<close>\<close>
  | RentalEarnings string      \<comment> \<open>\<^verbatim>\<open>Earnings from rental: ${title}\<close>\<close>
  | DepositRefund string       \<comment> \<open>\<^verbatim>\<open>Deposit refund for: ${title}\<close>\<close>
  | ExtensionPayment string    \<comment> \<open>\<^verbatim>\<open>Extension payment for ${title}\<close>\<close>
  | WalletTopUp rat            \<comment> \<open>\<^verbatim>\<open>Wallet top-up of ${amount}\<close>\<close>
  | ComplaintRefund id         \<comment> \<open>\<^verbatim>\<open>Refund for complaint #${complaint._id}\<close>\<close>

record wallet_transaction =
  tx_type :: tx_type
  amount :: rat
  description :: tx_description
  bookingId :: "id option"

record wallet =
  balance :: rat
  transactions :: "wallet_transaction list"

datatype user_role = RoleUser | RoleAdmin

record user_doc =
  wallet :: wallet
  totalEarnings :: rat          \<comment> \<open>\<^verbatim>\<open>stats.totalEarnings\<close>\<close>
  isSuspended :: bool
  role :: user_role

text \<open>
  The Item model is used through these fields only: \<^verbatim>\<open>owner\<close>, \<^verbatim>\<open>title\<close>,
  \<^verbatim>\<open>dailyPrice\<close>, \<^verbatim>\<open>itemValue\<close>, \<^verbatim>\<open>depositPercentage\<close>,
  \<^verbatim>\<open>availability.isAvailable\<close>, \<^verbatim>\<open>stats.bookings\<close> and \<^verbatim>\<open>stats.totalEarnings\<close>.
\<close>

record item_doc =
  owner :: id
  title :: string
  itemDailyPrice :: rat
  itemValue :: rat
  depositPercentage :: rat
  isAvailable :: bool
  statsBookings :: rat
  statsTotalEarnings :: rat

datatype booking_status = Pending | Approved | Active | Completed | Cancelled

record pricing =
  dailyPrice :: rat
  totalDays :: rat
  subtotal :: rat
  depositAmount :: rat
  platformFee :: rat
  totalAmount :: rat
  lenderEarnings :: rat

record payment =
  depositPaid :: bool
  depositRefunded :: bool
  finalPaymentMade :: bool
  lenderPaid :: bool

datatype timeline_note =
    Note string
  | ExtendedNote rat date       \<comment> \<open>\<^verbatim>\<open>Rental extended by ${additionalDays} days until ${newEnd}\<close>\<close>
  | SuspensionNote string       \<comment> \<open>\<^verbatim>\<open>Cancelled due to user suspension: ${reason}\<close>\<close>

type_synonym timeline_entry = "string \<times> timeline_note"

record booking_doc =
  item :: id
  borrower :: id
  lender :: id
  startDate :: date
  endDate :: date
  status :: booking_status
  pricing :: pricing
  payment :: payment
  timeline :: "timeline_entry list"
  messages :: "(id \<times> string) list"

record db =
  users :: "id \<rightharpoonup> user_doc"
  items :: "id \<rightharpoonup> item_doc"
  bookings :: "booking_doc list"

datatype error =
    ItemNotFound                \<comment> \<open>404 \<^verbatim>\<open>Item not found\<close>\<close>
  | OwnItem                     \<comment> \<open>400 \<^verbatim>\<open>You cannot book your own item\<close>\<close>
  | ItemUnavailable             \<comment> \<open>400 \<^verbatim>\<open>Item is not available for booking\<close>\<close>
  | DateConflict                \<comment> \<open>400 \<^verbatim>\<open>Item is not available for the selected dates\<close>\<close>
  | InsufficientFunds           \<comment> \<open>400 \<^verbatim>\<open>Insufficient wallet balance\<close>\<close>
  | BookingNotFound             \<comment> \<open>404 \<^verbatim>\<open>Booking not found\<close>\<close>
  | Forbidden                   \<comment> \<open>403, approve or cancel by someone other than the lender\<close>
  | MessageForbidden            \<comment> \<open>403 \<^verbatim>\<open>Not authorized to message in this booking\<close>\<close>
  | ExtendForbidden             \<comment> \<open>403 \<^verbatim>\<open>Not authorized to extend this rental\<close>\<close>
  | NotExtendable               \<comment> \<open>400 \<^verbatim>\<open>Can only extend active bookings\<close>\<close>
  | EndNotAfterStart            \<comment> \<open>400 \<^verbatim>\<open>New end date must be after start date\<close>\<close>
  | EndNotAfterCurrentEnd       \<comment> \<open>400 \<^verbatim>\<open>New end date must be after current end date\<close>\<close>
  | ExtensionInsufficientFunds  \<comment> \<open>400 \<^verbatim>\<open>Borrower has insufficient balance for extension\<close>\<close>
  | InvalidAmount               \<comment> \<open>400 \<^verbatim>\<open>Amount must be a positive number\<close>\<close>
  | UserNotFound                \<comment> \<open>404 \<^verbatim>\<open>User not found\<close>\<close>
  | CannotSuspendAdmin          \<comment> \<open>400 \<^verbatim>\<open>Cannot suspend admin users\<close>\<close>
  | ServerError                 \<comment> \<open>500, an exception caught by the handler\<close>

datatype response = Success | Failure error

subsection \<open>The Booking model\<close>

text \<open>\<^verbatim>\<open>1000 * 60 * 60 * 24\<close>, and the literal \<^verbatim>\<open>0.05\<close>, which is the double next to 1/20.\<close>

definition msPerDay :: rat where
  "msPerDay = 1000 * 60 * 60 * 24"

definition platformRate :: rat where
  "platformRate = toDouble (5 / 100)"

text \<open>
  The difference of two Dates, \<^verbatim>\<open>end - start\<close>, in days rounded up:
  \<^verbatim>\<open>Math.ceil((end - start) / (1000 * 60 * 60 * 24))\<close>.
\<close>

definition daysBetween :: "date \<Rightarrow> date \<Rightarrow> rat" where
  "daysBetween start end = Math_ceil (jsDiv (jsSub (of_int end) (of_int start)) msPerDay)"

definition calculatePricing :: "booking_doc \<Rightarrow> rat \<Rightarrow> rat \<Rightarrow> rat \<Rightarrow> booking_doc" where
  "calculatePricing this dailyPrice' itemValue' depositPercentage' =
     (let totalDays' = daysBetween (startDate this) (endDate this);
          subtotal' = jsMul dailyPrice' totalDays';
          depositAmount' = Math_round (jsDiv (jsMul itemValue' depositPercentage') 100);
          platformFee' = Math_round (jsMul subtotal' platformRate);
          totalAmount' = jsAdd (jsAdd subtotal' depositAmount') platformFee';
          lenderEarnings' = jsSub subtotal' platformFee'
      in this\<lparr>pricing := \<lparr>dailyPrice = dailyPrice', totalDays = totalDays',
            subtotal = subtotal', depositAmount = depositAmount',
            platformFee = platformFee', totalAmount = totalAmount',
            lenderEarnings = lenderEarnings'\<rparr>\<rparr>)"

definition addTimelineEntry :: "booking_doc \<Rightarrow> string \<Rightarrow> timeline_note \<Rightarrow> booking_doc" where
  "addTimelineEntry this st nt = this\<lparr>timeline := timeline this @ [(st, nt)]\<rparr>"

text \<open>
  The pre-save hook: \<^verbatim>\<open>if (this.startDate >= this.endDate) return next(new Error(...))\<close>.
\<close>

definition preSaveOk :: "booking_doc \<Rightarrow> bool" where
  "preSaveOk this = (\<not> startDate this \<ge> endDate this)"

text \<open>
  \<^verbatim>\<open>new Booking({item, borrower, lender, startDate, endDate})\<close> with the schema
  defaults. The pricing is not set by the constructor; \<open>calculatePricing\<close> assigns
  the whole object before anything reads it, so the placeholder is never observed.
\<close>

definition newBooking :: "id \<Rightarrow> id \<Rightarrow> id \<Rightarrow> date \<Rightarrow> date \<Rightarrow> booking_doc" where
  "newBooking itemId borrowerId lenderId startDate' endDate' =
     \<lparr>item = itemId, borrower = borrowerId, lender = lenderId,
      startDate = startDate', endDate = endDate', status = Pending,
      pricing = \<lparr>dailyPrice = 0, totalDays = 0, subtotal = 0, depositAmount = 0,
                 platformFee = 0, totalAmount = 0, lenderEarnings = 0\<rparr>,
      payment = \<lparr>depositPaid = False, depositRefunded = False,
                 finalPaymentMade = False, lenderPaid = False\<rparr>,
      timeline = [], messages = []\<rparr>"

subsection \<open>Store operations\<close>

text \<open>\<^verbatim>\<open>Booking.findById\<close>.\<close>

definition findBooking :: "db \<Rightarrow> id \<Rightarrow> booking_doc option" where
  "findBooking d i = (if i < length (bookings d) then Some (bookings d ! i) else None)"

text \<open>
  \<^verbatim>\<open>booking.save()\<close> on a loaded document: the pre-save hook runs first and its error
  is thrown, which the handler turns into status 500 without writing the booking.
\<close>

definition saveBooking :: "db \<Rightarrow> id \<Rightarrow> booking_doc \<Rightarrow> response \<times> db" where
  "saveBooking d i booking =
     (if preSaveOk booking then (Success, d\<lparr>bookings := (bookings d)[i := booking]\<rparr>)
      else (Failure ServerError, d))"

text \<open>
  \<^verbatim>\<open>User.findByIdAndUpdate(uid, {$inc: {'wallet.balance': inc}, $push:
  {'wallet.transactions': tx}})\<close>: one atomic update; no document, no effect.
  \<^verbatim>\<open>$inc\<close> adds the two doubles.
\<close>

definition walletUpdate :: "db \<Rightarrow> id \<Rightarrow> rat \<Rightarrow> wallet_transaction \<Rightarrow> db" where
  "walletUpdate d uid inc tx =
     (case users d uid of
        None \<Rightarrow> d
      | Some u \<Rightarrow> d\<lparr>users := (users d)(uid \<mapsto>
          u\<lparr>wallet := \<lparr>balance = jsAdd (balance (wallet u)) inc,
                        transactions = transactions (wallet u) @ [tx]\<rparr>\<rparr>)\<rparr>)"

text \<open>The same update with \<^verbatim>\<open>'stats.totalEarnings'\<close> incremented too (the lender's payout).\<close>

definition earningsUpdate :: "db \<Rightarrow> id \<Rightarrow> rat \<Rightarrow> wallet_transaction \<Rightarrow> db" where
  "earningsUpdate d uid inc tx =
     (case users d uid of
        None \<Rightarrow> d
      | Some u \<Rightarrow> d\<lparr>users := (users d)(uid \<mapsto>
          u\<lparr>wallet := \<lparr>balance = jsAdd (balance (wallet u)) inc,
                        transactions = transactions (wallet u) @ [tx]\<rparr>,
            totalEarnings := jsAdd (totalEarnings u) inc\<rparr>)\<rparr>)"

text \<open>\<^verbatim>\<open>Item.findByIdAndUpdate(iid, {'availability.isAvailable': flag})\<close>.\<close>

definition setAvailable :: "db \<Rightarrow> id \<Rightarrow> bool \<Rightarrow> db" where
  "setAvailable d iid flag =
     (case items d iid of
        None \<Rightarrow> d
      | Some i \<Rightarrow> d\<lparr>items := (items d)(iid \<mapsto> i\<lparr>isAvailable := flag\<rparr>)\<rparr>)"

text \<open>
  \<^verbatim>\<open>Item.findByIdAndUpdate(iid, {$inc: {'stats.bookings': 1, 'stats.totalEarnings': e}})\<close>.
\<close>

definition incItemStats :: "db \<Rightarrow> id \<Rightarrow> rat \<Rightarrow> db" where
  "incItemStats d iid e =
     (case items d iid of
        None \<Rightarrow> d
      | Some i \<Rightarrow> d\<lparr>items := (items d)(iid \<mapsto>
          i\<lparr>statsBookings := jsAdd (statsBookings i) 1,
            statsTotalEarnings := jsAdd (statsTotalEarnings i) e\<rparr>)\<rparr>)"

text \<open>\<^verbatim>\<open>note || dflt\<close>: an absent or empty note is falsy.\<close>

definition noteOr :: "string option \<Rightarrow> string \<Rightarrow> string" where
  "noteOr note dflt = (case note of None \<Rightarrow> dflt | Some s \<Rightarrow> if s = [] then dflt else s)"

subsection \<open>createBooking\<close>

text \<open>
  The conflict query:
  \<^verbatim>\<open>Booking.findOne({item: itemId, status: {$in: ['approved', 'active']},
  $or: [{startDate: {$lte: new Date(endDate)}, endDate: {$gte: new Date(startDate)}}]})\<close>.
\<close>

definition conflictingBooking :: "db \<Rightarrow> id \<Rightarrow> date \<Rightarrow> date \<Rightarrow> booking_doc option" where
  "conflictingBooking d itemId startDate' endDate' =
     find (\<lambda>b. item b = itemId \<and> (status b = Approved \<or> status b = Active)
               \<and> startDate b \<le> endDate' \<and> endDate b \<ge> startDate')
          (bookings d)"

text \<open>
  The request body has passed the express-validator rules (the dates parse, the
  item id is well formed). \<^verbatim>\<open>populate('owner')\<close> of an item whose owner document
  is missing yields null, and \<^verbatim>\<open>item.owner._id\<close> then throws; so does
  \<^verbatim>\<open>borrower.wallet\<close> when the requesting user has no document.
\<close>

definition createBooking :: "db \<Rightarrow> id \<Rightarrow> id \<Rightarrow> date \<Rightarrow> date \<Rightarrow> response \<times> db" where
  "createBooking d reqUser itemId startDate' endDate' =
     (case items d itemId of
        None \<Rightarrow> (Failure ItemNotFound, d)
      | Some itemDoc \<Rightarrow>
          (case users d (owner itemDoc) of
             None \<Rightarrow> (Failure ServerError, d)
           | Some ownerDoc \<Rightarrow>
               if owner itemDoc = reqUser then (Failure OwnItem, d)
               else if \<not> isAvailable itemDoc then (Failure ItemUnavailable, d)
               else if conflictingBooking d itemId startDate' endDate' \<noteq> None
                 then (Failure DateConflict, d)
               else
                 (let booking = calculatePricing
                        (newBooking itemId reqUser (owner itemDoc) startDate' endDate')
                        (itemDailyPrice itemDoc) (itemValue itemDoc) (depositPercentage itemDoc)
                  in case users d reqUser of
                       None \<Rightarrow> (Failure ServerError, d)
                     | Some borrowerDoc \<Rightarrow>
                         if balance (wallet borrowerDoc) < totalAmount (pricing booking)
                         then (Failure InsufficientFunds, d)
                         else
                           (let booking' = addTimelineEntry booking ''pending''
                                             (Note ''Booking request created'')
                            in if preSaveOk booking'
                               then (Success, d\<lparr>bookings := bookings d @ [booking']\<rparr>)
                               else (Failure ServerError, d)))))"

subsection \<open>updateBookingStatus\<close>

text \<open>
  The booking is loaded with \<^verbatim>\<open>populate('borrower')\<close>, \<^verbatim>\<open>populate('lender')\<close> and
  \<^verbatim>\<open>populate('item')\<close>; a reference whose document is missing is populated with
  null, and reading \<^verbatim>\<open>._id\<close> or \<^verbatim>\<open>.title\<close> of it throws. The arguments of each
  \<^verbatim>\<open>findByIdAndUpdate\<close> are evaluated before the call, so such an exception
  precedes the write it belongs to. The handler does not consult
  \<^verbatim>\<open>validationResult\<close>, so the requested status is any string.
\<close>

text \<open>Lines 295 to 315: \<^verbatim>\<open>status === 'approved' && booking.status === 'pending'\<close>.\<close>

definition approveBranch :: "db \<Rightarrow> id \<Rightarrow> booking_doc \<Rightarrow> string option \<Rightarrow> response \<times> db" where
  "approveBranch d bookingId' booking note =
     (case users d (borrower booking) of
        None \<Rightarrow> (Failure ServerError, d)
      | Some borrowerDoc \<Rightarrow>
          (case items d (item booking) of
             None \<Rightarrow> (Failure ServerError, d)
           | Some itemDoc \<Rightarrow>
               (let d1 = walletUpdate d (borrower booking) (- totalAmount (pricing booking))
                           \<lparr>tx_type = Debit, amount = totalAmount (pricing booking),
                            description = BookingPayment (title itemDoc),
                            bookingId = Some bookingId'\<rparr>;
                    booking1 = booking\<lparr>payment := (payment booking)\<lparr>depositPaid := True\<rparr>,
                                       status := Approved\<rparr>;
                    booking2 = addTimelineEntry booking1 ''approved''
                                 (Note (noteOr note ''Booking approved by lender''));
                    d2 = setAvailable d1 (item booking) False
                in saveBooking d2 bookingId' booking2)))"

text \<open>Lines 317 to 338: \<^verbatim>\<open>status === 'cancelled'\<close>, whatever the current status.\<close>

definition cancelRefund :: "db \<Rightarrow> id \<Rightarrow> booking_doc \<Rightarrow> db option" where
  "cancelRefund d bookingId' booking =
     (if depositPaid (payment booking) then
        (case users d (borrower booking) of
           None \<Rightarrow> None
         | Some borrowerDoc \<Rightarrow>
             (case items d (item booking) of
                None \<Rightarrow> None
              | Some itemDoc \<Rightarrow>
                  Some (walletUpdate d (borrower booking) (totalAmount (pricing booking))
                          \<lparr>tx_type = Credit, amount = totalAmount (pricing booking),
                           description = CancelRefund (title itemDoc),
                           bookingId = Some bookingId'\<rparr>)))
      else Some d)"

definition cancelBranch :: "db \<Rightarrow> id \<Rightarrow> booking_doc \<Rightarrow> string option \<Rightarrow> response \<times> db" where
  "cancelBranch d bookingId' booking note =
     (case cancelRefund d bookingId' booking of
        None \<Rightarrow> (Failure ServerError, d)
      | Some d1 \<Rightarrow>
          (case items d1 (item booking) of
             None \<Rightarrow> (Failure ServerError, d1)
           | Some itemDoc \<Rightarrow>
               (let booking1 = booking\<lparr>status := Cancelled\<rparr>;
                    d2 = setAvailable d1 (item booking) True;
                    booking2 = addTimelineEntry booking1 ''cancelled''
                                 (Note (noteOr note ''Booking cancelled''))
                in saveBooking d2 bookingId' booking2)))"

text \<open>Lines 340 to 346: \<^verbatim>\<open>status === 'active' && booking.status === 'approved'\<close>.\<close>

definition activeBranch :: "db \<Rightarrow> id \<Rightarrow> booking_doc \<Rightarrow> response \<times> db" where
  "activeBranch d bookingId' booking =
     (let booking1 = addTimelineEntry (booking\<lparr>status := Active\<rparr>) ''active''
                       (Note ''Item pickup completed'')
      in case items d (item booking) of
           None \<Rightarrow> (Failure ServerError, d)
         | Some itemDoc \<Rightarrow> saveBooking (setAvailable d (item booking) False) bookingId' booking1)"

text \<open>
  Lines 348 to 396: \<^verbatim>\<open>status === 'completed' && booking.status === 'active'\<close>. A
  missing borrower document is found only after the lender has been paid.
\<close>

definition completeBranch :: "db \<Rightarrow> id \<Rightarrow> booking_doc \<Rightarrow> response \<times> db" where
  "completeBranch d bookingId' booking =
     (case users d (lender booking) of
        None \<Rightarrow> (Failure ServerError, d)
      | Some lenderDoc \<Rightarrow>
          (case items d (item booking) of
             None \<Rightarrow> (Failure ServerError, d)
           | Some itemDoc \<Rightarrow>
               (let d1 = earningsUpdate d (lender booking) (lenderEarnings (pricing booking))
                           \<lparr>tx_type = Credit, amount = lenderEarnings (pricing booking),
                            description = RentalEarnings (title itemDoc),
                            bookingId = Some bookingId'\<rparr>
                in case users d (borrower booking) of
                     None \<Rightarrow> (Failure ServerError, d1)
                   | Some borrowerDoc \<Rightarrow>
                       (let d2 = walletUpdate d1 (borrower booking) (depositAmount (pricing booking))
                                   \<lparr>tx_type = Credit, amount = depositAmount (pricing booking),
                                    description = DepositRefund (title itemDoc),
                                    bookingId = Some bookingId'\<rparr>;
                            booking1 = booking\<lparr>payment := (payment booking)
                                           \<lparr>finalPaymentMade := True, lenderPaid := True,
                                            depositRefunded := True\<rparr>,
                                         status := Completed\<rparr>;
                            booking2 = addTimelineEntry booking1 ''completed''
                                         (Note ''Booking completed successfully'');
                            d3 = setAvailable d2 (item booking) True;
                            d4 = incItemStats d3 (item booking) (lenderEarnings (pricing booking))
                        in saveBooking d4 bookingId' booking2))))"

definition updateBookingStatus ::
    "db \<Rightarrow> id \<Rightarrow> id \<Rightarrow> string \<Rightarrow> string option \<Rightarrow> response \<times> db" where
  "updateBookingStatus d reqUser bookingId' status' note =
     (case findBooking d bookingId' of
        None \<Rightarrow> (Failure BookingNotFound, d)
      | Some booking \<Rightarrow>
          if (status' = ''approved'' \<or> status' = ''cancelled'')
             \<and> users d (lender booking) = None
          then (Failure ServerError, d)
          else if (status' = ''approved'' \<or> status' = ''cancelled'')
             \<and> lender booking \<noteq> reqUser
          then (Failure Forbidden, d)
          else if status' = ''approved'' \<and> status booking = Pending
          then approveBranch d bookingId' booking note
          else if status' = ''cancelled''
          then cancelBranch d bookingId' booking note
          else if status' = ''active'' \<and> status booking = Approved
          then activeBranch d bookingId' booking
          else if status' = ''completed'' \<and> status booking = Active
          then completeBranch d bookingId' booking
          else saveBooking d bookingId' booking)"

subsection \<open>addBookingMessage\<close>

definition addBookingMessage :: "db \<Rightarrow> id \<Rightarrow> id \<Rightarrow> string \<Rightarrow> response \<times> db" where
  "addBookingMessage d reqUser bookingId' message =
     (case findBooking d bookingId' of
        None \<Rightarrow> (Failure BookingNotFound, d)
      | Some booking \<Rightarrow>
          if borrower booking \<noteq> reqUser \<and> lender booking \<noteq> reqUser
          then (Failure MessageForbidden, d)
          else saveBooking d bookingId'
                 (booking\<lparr>messages := messages booking @ [(reqUser, message)]\<rparr>))"

subsection \<open>extendRentalPeriod\<close>

text \<open>
  The booking is loaded with \<^verbatim>\<open>populate('item')\<close> and \<^verbatim>\<open>populate('borrower')\<close>;
  \<^verbatim>\<open>booking.item.owner\<close> throws for a missing item and
  \<^verbatim>\<open>booking.borrower.wallet\<close> for a missing borrower. The new end date is one
  that parses.
\<close>

definition extendRentalPeriod :: "db \<Rightarrow> id \<Rightarrow> id \<Rightarrow> date \<Rightarrow> response \<times> db" where
  "extendRentalPeriod d reqUser bookingId' newEnd =
     (case findBooking d bookingId' of
        None \<Rightarrow> (Failure BookingNotFound, d)
      | Some booking \<Rightarrow>
          (case items d (item booking) of
             None \<Rightarrow> (Failure ServerError, d)
           | Some itemDoc \<Rightarrow>
               if owner itemDoc \<noteq> reqUser then (Failure ExtendForbidden, d)
               else if \<not> (status booking = Approved \<or> status booking = Active)
                 then (Failure NotExtendable, d)
               else if newEnd \<le> startDate booking then (Failure EndNotAfterStart, d)
               else if newEnd \<le> endDate booking then (Failure EndNotAfterCurrentEnd, d)
               else
                 (let additionalDays = daysBetween (endDate booking) newEnd;
                      additionalCost = jsMul additionalDays (dailyPrice (pricing booking))
                  in case users d (borrower booking) of
                       None \<Rightarrow> (Failure ServerError, d)
                     | Some borrowerDoc \<Rightarrow>
                         if balance (wallet borrowerDoc) < additionalCost
                         then (Failure ExtensionInsufficientFunds, d)
                         else
                           (let booking1 = booking\<lparr>endDate := newEnd,
                                  pricing := (pricing booking)
                                    \<lparr>totalDays := jsAdd (totalDays (pricing booking)) additionalDays,
                                     subtotal := jsAdd (subtotal (pricing booking)) additionalCost,
                                     totalAmount :=
                                       jsAdd (totalAmount (pricing booking)) additionalCost,
                                     lenderEarnings :=
                                       jsAdd (lenderEarnings (pricing booking)) additionalCost\<rparr>\<rparr>;
                                d1 = walletUpdate d (borrower booking) (- additionalCost)
                                       \<lparr>tx_type = Debit, amount = additionalCost,
                                        description = ExtensionPayment (title itemDoc),
                                        bookingId = Some bookingId'\<rparr>;
                                booking2 = addTimelineEntry booking1 ''extended''
                                             (ExtendedNote additionalDays newEnd)
                            in saveBooking d1 bookingId' booking2))))"

subsection \<open>The other writers of wallets and bookings\<close>

text \<open>
  \<^verbatim>\<open>addToWallet\<close>: \<^verbatim>\<open>!amount || amount <= 0\<close> rejects the request. The update of a
  user without a document matches nothing and returns null, whose \<^verbatim>\<open>.wallet\<close> throws.
\<close>

definition addToWallet :: "db \<Rightarrow> id \<Rightarrow> rat \<Rightarrow> response \<times> db" where
  "addToWallet d reqUser amount' =
     (if amount' = 0 \<or> amount' \<le> 0 then (Failure InvalidAmount, d)
      else case users d reqUser of
             None \<Rightarrow> (Failure ServerError, d)
           | Some u \<Rightarrow>
               (Success, walletUpdate d reqUser amount'
                           \<lparr>tx_type = Credit, amount = amount',
                            description = WalletTopUp amount', bookingId = None\<rparr>))"

text \<open>
  The refund action of the admin's \<^verbatim>\<open>updateComplaint\<close>
  (\<^verbatim>\<open>resolution.action === 'refund' && resolution.amount\<close>): the only part of that
  handler that writes a wallet.
\<close>

definition complaintRefund :: "db \<Rightarrow> id \<Rightarrow> id \<Rightarrow> rat \<Rightarrow> db" where
  "complaintRefund d complainant complaintId amount' =
     (if amount' \<noteq> 0
      then walletUpdate d complainant amount'
             \<lparr>tx_type = Credit, amount = amount',
              description = ComplaintRefund complaintId, bookingId = None\<rparr>
      else d)"

text \<open>
  The admin's \<^verbatim>\<open>toggleUserSuspension\<close>: on suspension, \<^verbatim>\<open>Booking.updateMany\<close>
  cancels the user's pending and approved bookings. No hook runs and no wallet or
  item is touched.
\<close>

definition toggleUserSuspension :: "db \<Rightarrow> id \<Rightarrow> string \<Rightarrow> response \<times> db" where
  "toggleUserSuspension d uid reason =
     (case users d uid of
        None \<Rightarrow> (Failure UserNotFound, d)
      | Some user \<Rightarrow>
          if role user = RoleAdmin then (Failure CannotSuspendAdmin, d)
          else
            (let user' = user\<lparr>isSuspended := \<not> isSuspended user\<rparr>;
                 d1 = d\<lparr>users := (users d)(uid \<mapsto> user')\<rparr>
             in if isSuspended user'
                then (Success, d1\<lparr>bookings :=
                        map (\<lambda>b. if (borrower b = uid \<or> lender b = uid)
                                     \<and> (status b = Pending \<or> status b = Approved)
                                  then b\<lparr>status := Cancelled,
                                         timeline := timeline b
                                           @ [(''cancelled'', SuspensionNote reason)]\<rparr>
                                  else b)
                            (bookings d1)\<rparr>)
                else (Success, d1)))"

text \<open>
  \<^verbatim>\<open>User.create\<close> of \<^verbatim>\<open>register\<close>: the new document gets the schema defaults,
  among them \<^verbatim>\<open>balance: { type: Number, default: 1000 } // Starting with 1000 for demo\<close>
  and no transactions. The fresh id is a parameter; an id in use is a duplicate
  key error.
\<close>

definition newUser :: user_doc where
  "newUser = \<lparr>wallet = \<lparr>balance = 1000, transactions = []\<rparr>, totalEarnings = 0,
              isSuspended = False, role = RoleUser\<rparr>"

definition register :: "db \<Rightarrow> id \<Rightarrow> response \<times> db" where
  "register d newId =
     (case users d newId of
        Some u \<Rightarrow> (Failure ServerError, d)
      | None \<Rightarrow> (Success, d\<lparr>users := (users d)(newId \<mapsto> newUser)\<rparr>))"

subsection \<open>Runs of the system\<close>

text \<open>
  A request is a call of one handler. \<open>ReqItemWrite\<close> stands for the handlers
  outside the booking subsystem that write the items collection
  (\<^verbatim>\<open>createItem\<close>, \<^verbatim>\<open>updateItem\<close>, which copies the request body into the update,
  and \<^verbatim>\<open>deleteItem\<close>): an item is overwritten or deleted. The authentication
  middleware is not modelled: the requester's id is whatever the request carries,
  which only adds runs. The numbers of a request body are decimal literals, which
  \<^verbatim>\<open>JSON.parse\<close> and \<^verbatim>\<open>Number(...)\<close> turn into the nearest double before a
  handler or the store sees them.
\<close>

definition jsonItem :: "item_doc \<Rightarrow> item_doc" where
  "jsonItem i = i\<lparr>itemDailyPrice := toDouble (itemDailyPrice i),
                  itemValue := toDouble (itemValue i),
                  depositPercentage := toDouble (depositPercentage i),
                  statsBookings := toDouble (statsBookings i),
                  statsTotalEarnings := toDouble (statsTotalEarnings i)\<rparr>"

datatype request =
    ReqRegister id
  | ReqAddToWallet id rat
  | ReqCreateBooking id id date date
  | ReqUpdateBookingStatus id id string "string option"
  | ReqAddBookingMessage id id string
  | ReqExtendRentalPeriod id id date
  | ReqComplaintRefund id id rat
  | ReqToggleUserSuspension id string
  | ReqItemWrite id "item_doc option"

fun step :: "db \<Rightarrow> request \<Rightarrow> db" where
  "step d (ReqRegister newId) = snd (register d newId)"
| "step d (ReqAddToWallet reqUser a) = snd (addToWallet d reqUser (toDouble a))"
| "step d (ReqCreateBooking reqUser itemId s e) = snd (createBooking d reqUser itemId s e)"
| "step d (ReqUpdateBookingStatus reqUser b st note) = snd (updateBookingStatus d reqUser b st note)"
| "step d (ReqAddBookingMessage reqUser b m) = snd (addBookingMessage d reqUser b m)"
| "step d (ReqExtendRentalPeriod reqUser b newEnd) = snd (extendRentalPeriod d reqUser b newEnd)"
| "step d (ReqComplaintRefund complainant c a) = complaintRefund d complainant c (toDouble a)"
| "step d (ReqToggleUserSuspension uid reason) = snd (toggleUserSuspension d uid reason)"
| "step d (ReqItemWrite iid x) = d\<lparr>items := (items d)(iid := map_option jsonItem x)\<rparr>"

fun run :: "db \<Rightarrow> request list \<Rightarrow> db" where
  "run d [] = d"
| "run d (r # rs) = run (step d r) rs"

definition emptyDb :: db where
  "emptyDb = \<lparr>users = Map.empty, items = Map.empty, bookings = []\<rparr>"

subsection \<open>The ledger and pricing properties\<close>

text \<open>The sums of the credit and of the debit amounts of a transaction history.\<close>

definition creditTotal :: "wallet_transaction list \<Rightarrow> rat" where
  "creditTotal txs = sum_list (map amount (filter (\<lambda>t. tx_type t = Credit) txs))"

definition debitTotal :: "wallet_transaction list \<Rightarrow> rat" where
  "debitTotal txs = sum_list (map amount (filter (\<lambda>t. tx_type t = Debit) txs))"

text \<open>The balance equation of the specification.\<close>

definition ledgerEq :: "user_doc \<Rightarrow> bool" where
  "ledgerEq u = (balance (wallet u)
       = creditTotal (transactions (wallet u)) - debitTotal (transactions (wallet u)))"

text \<open>
  The signed amount of a transaction, and the balance that the history gives when
  its signed amounts are added to an opening balance one after the other, each
  addition rounded as the code's is.
\<close>

definition signedAmount :: "wallet_transaction \<Rightarrow> rat" where
  "signedAmount tx = (case tx_type tx of Credit \<Rightarrow> amount tx | Debit \<Rightarrow> - amount tx)"

definition replay :: "rat \<Rightarrow> wallet_transaction list \<Rightarrow> rat" where
  "replay opening txs = foldl (\<lambda>b tx. jsAdd b (signedAmount tx)) opening txs"

text \<open>No addition of the replay is rounded: each rounded sum is the exact sum.\<close>

fun unrounded :: "rat \<Rightarrow> wallet_transaction list \<Rightarrow> bool" where
  "unrounded b [] = True"
| "unrounded b (tx # txs) = (jsAdd b (signedAmount tx) = b + signedAmount tx
                            \<and> unrounded (b + signedAmount tx) txs)"

definition ledgerOk :: "user_doc \<Rightarrow> bool" where
  "ledgerOk u = (balance (wallet u) = replay 1000 (transactions (wallet u)))"

definition ledgerInv :: "db \<Rightarrow> bool" where
  "ledgerInv d = (\<forall>uid u. users d uid = Some u \<longrightarrow> ledgerOk u)"

definition pricingOk :: "booking_doc \<Rightarrow> bool" where
  "pricingOk b = (totalAmount (pricing b)
                    = subtotal (pricing b) + depositAmount (pricing b) + platformFee (pricing b)
                \<and> lenderEarnings (pricing b) = subtotal (pricing b) - platformFee (pricing b))"



text \<open>
  A wallet update whose increment is the signed amount of the transaction it pushes:
  plus the amount for a credit, minus the amount for a debit.
\<close>

definition txMatches :: "rat \<Rightarrow> wallet_transaction \<Rightarrow> bool" where
  "txMatches inc tx = (inc = signedAmount tx)"

text \<open>
  The references of a stored booking: its dates pass the pre-save hook and its
  borrower and lender documents exist. (The item may have been deleted.)
\<close>

definition userExists :: "db \<Rightarrow> id \<Rightarrow> bool" where
  "userExists d uid = (users d uid \<noteq> None)"

definition bookingRefsOk :: "db \<Rightarrow> booking_doc \<Rightarrow> bool" where
  "bookingRefsOk d b = (startDate b < endDate b \<and> userExists d (borrower b)
                         \<and> userExists d (lender b))"

definition refsInv :: "db \<Rightarrow> bool" where
  "refsInv d = (\<forall>b \<in> set (bookings d). bookingRefsOk d b)"

subsection \<open>Example data\<close>

text \<open>
  An item of user 1 at 100 a day, worth 1000, with a 20 percent deposit. Five days
  cost 500 + 200 + 25 = 725.
\<close>

definition drill :: item_doc where
  "drill = \<lparr>owner = 1, title = ''Drill'', itemDailyPrice = 100, itemValue = 1000,
            depositPercentage = 20, isAvailable = True, statsBookings = 0,
            statsTotalEarnings = 0\<rparr>"

definition fiveDays :: date where
  "fiveDays = 432000000"

text \<open>Users 1 (lender) and 2 (borrower) register, the drill is listed, 2 requests it.\<close>

definition reqsRequested :: "request list" where
  "reqsRequested = [ReqRegister 1, ReqRegister 2, ReqItemWrite 7 (Some drill),
                ReqCreateBooking 2 7 0 fiveDays]"

definition reqsApproved :: "request list" where
  "reqsApproved = reqsRequested @ [ReqUpdateBookingStatus 1 0 ''approved'' None]"

definition sevenDays :: date where
  "sevenDays = 604800000"

definition tenDays :: date where
  "tenDays = 864000000"


definition reqsActive :: "request list" where
  "reqsActive = reqsApproved @ [ReqUpdateBookingStatus 2 0 ''active'' None]"

definition reqsCompleted :: "request list" where
  "reqsCompleted = reqsActive @ [ReqUpdateBookingStatus 2 0 ''completed'' None]"

text \<open>The lender's cancellation request for booking \<open>b\<close>.\<close>

definition cancelRequest :: "id \<Rightarrow> request" where
  "cancelRequest b = ReqUpdateBookingStatus 1 b ''cancelled'' None"

text \<open>
  Users 2 and 3 both request the drill for the same days (a pending booking blocks
  nobody), then the lender approves the request of user 2.
\<close>

definition reqsCompeting :: "request list" where
  "reqsCompeting = [ReqRegister 1, ReqRegister 2, ReqRegister 3, ReqItemWrite 7 (Some drill),
                ReqCreateBooking 2 7 0 fiveDays, ReqCreateBooking 3 7 0 fiveDays,
                ReqUpdateBookingStatus 1 0 ''approved'' None]"

text \<open>The states after \<open>reqsRequested\<close> and after \<open>reqsApproved\<close>, written out.\<close>

definition pendingBooking :: booking_doc where
  "pendingBooking =
     \<lparr>item = 7, borrower = 2, lender = 1, startDate = 0, endDate = fiveDays, status = Pending,
      pricing = \<lparr>dailyPrice = 100, totalDays = 5, subtotal = 500, depositAmount = 200,
                 platformFee = 25, totalAmount = 725, lenderEarnings = 475\<rparr>,
      payment = \<lparr>depositPaid = False, depositRefunded = False,
                 finalPaymentMade = False, lenderPaid = False\<rparr>,
      timeline = [(''pending'', Note ''Booking request created'')], messages = []\<rparr>"

definition requestedDb :: db where
  "requestedDb = \<lparr>users = [1 \<mapsto> newUser, 2 \<mapsto> newUser], items = [7 \<mapsto> drill],
                  bookings = [pendingBooking]\<rparr>"

definition paymentTx :: wallet_transaction where
  "paymentTx = \<lparr>tx_type = Debit, amount = 725, description = BookingPayment ''Drill'',
                bookingId = Some 0\<rparr>"

definition chargedBorrower :: user_doc where
  "chargedBorrower = \<lparr>wallet = \<lparr>balance = 275, transactions = [paymentTx]\<rparr>,
                      totalEarnings = 0, isSuspended = False, role = RoleUser\<rparr>"

definition approvedBooking :: booking_doc where
  "approvedBooking =
     pendingBooking\<lparr>payment := (payment pendingBooking)\<lparr>depositPaid := True\<rparr>,
                    status := Approved,
                    timeline := [(''pending'', Note ''Booking request created''),
                                 (''approved'', Note ''Booking approved by lender'')]\<rparr>"

definition approvedDb :: db where
  "approvedDb = \<lparr>users = [1 \<mapsto> newUser, 2 \<mapsto> chargedBorrower],
                 items = [7 \<mapsto> drill\<lparr>isAvailable := False\<rparr>],
                 bookings = [approvedBooking]\<rparr>"

text \<open>
  An item of user 1 at 100 a day, worth 10000, with a 20 percent deposit: five days
  cost 500 + 2000 + 25 = 2525, more than the opening balance.
\<close>

definition camera :: item_doc where
  "camera = \<lparr>owner = 1, title = ''Camera'', itemDailyPrice = 100, itemValue = 10000,
             depositPercentage = 20, isAvailable = True, statsBookings = 0,
             statsTotalEarnings = 0\<rparr>"

definition cameraDb :: db where
  "cameraDb = \<lparr>users = [1 \<mapsto> newUser, 2 \<mapsto> newUser], items = [8 \<mapsto> camera],
               bookings = []\<rparr>"

text \<open>The state after the lender has extended the approved rental to seven days.\<close>

definition extendedDb :: db where
  "extendedDb =
     \<lparr>users = [1 \<mapsto> newUser,
               2 \<mapsto> \<lparr>wallet = \<lparr>balance = 75, transactions =
                          [paymentTx,
                           \<lparr>tx_type = Debit, amount = 200,
                            description = ExtensionPayment ''Drill'', bookingId = Some 0\<rparr>]\<rparr>,
                      totalEarnings = 0, isSuspended = False, role = RoleUser\<rparr>],
      items = [7 \<mapsto> drill\<lparr>isAvailable := False\<rparr>],
      bookings = [approvedBooking
        \<lparr>endDate := sevenDays,
         pricing := \<lparr>dailyPrice = 100, totalDays = 7, subtotal = 700, depositAmount = 200,
                     platformFee = 25, totalAmount = 925, lenderEarnings = 675\<rparr>,
         timeline := [(''pending'', Note ''Booking request created''),
                      (''approved'', Note ''Booking approved by lender''),
                      (''extended'', ExtendedNote 2 sevenDays)]\<rparr>]\<rparr>"

text \<open>User 1 registers and tops the wallet up by 0.1 and then by 0.2.\<close>

definition reqsTopUps :: "request list" where
  "reqsTopUps = [ReqRegister 1, ReqAddToWallet 1 (1 / 10), ReqAddToWallet 1 (2 / 10)]"






subsection \<open>Vocabulary of the claims\<close>

text \<open>A user document after one ledger entry: the balance moved and the entry appended.\<close>

definition walletAfter :: "user_doc \<Rightarrow> rat \<Rightarrow> wallet_transaction \<Rightarrow> user_doc" where
  "walletAfter u inc tx = u\<lparr>wallet := \<lparr>balance = jsAdd (balance (wallet u)) inc,
                                      transactions = transactions (wallet u) @ [tx]\<rparr>\<rparr>"

text \<open>The credit transaction of a cancellation refund.\<close>

definition refundTx :: "id \<Rightarrow> booking_doc \<Rightarrow> item_doc \<Rightarrow> wallet_transaction" where
  "refundTx b booking itemDoc =
     \<lparr>tx_type = Credit, amount = totalAmount (pricing booking),
      description = CancelRefund (title itemDoc), bookingId = Some b\<rparr>"

text \<open>
  The conflict rule in the words of the specification: some existing booking on
  the same item with status in \<open>{approved, active}\<close> has
  \<open>existing.start \<le> proposed.end\<close> and \<open>existing.end \<ge> proposed.start\<close>.
\<close>

definition dateConflict :: "db \<Rightarrow> id \<Rightarrow> date \<Rightarrow> date \<Rightarrow> bool" where
  "dateConflict d itemId proposedStart proposedEnd =
     (\<exists>existing \<in> set (bookings d).
        item existing = itemId \<and> status existing \<in> {Approved, Active}
        \<and> startDate existing \<le> proposedEnd \<and> endDate existing \<ge> proposedStart)"

text \<open>
  The extension rule in the words of the specification, with the code's
  arithmetic: additionalDays = ceiling((newEnd - oldEnd) / 1 day) and
  additionalCost = additionalDays * dailyPrice.
\<close>

definition additionalDaysFor :: "booking_doc \<Rightarrow> date \<Rightarrow> rat" where
  "additionalDaysFor booking newEnd
     = Math_ceil (jsDiv (jsSub (of_int newEnd) (of_int (endDate booking)))
                        (24 * 60 * 60 * 1000))"

definition additionalCostFor :: "booking_doc \<Rightarrow> date \<Rightarrow> rat" where
  "additionalCostFor booking newEnd
     = jsMul (additionalDaysFor booking newEnd) (dailyPrice (pricing booking))"

definition extensionTx :: "id \<Rightarrow> booking_doc \<Rightarrow> item_doc \<Rightarrow> date \<Rightarrow> wallet_transaction" where
  "extensionTx b booking itemDoc newEnd =
     \<lparr>tx_type = Debit, amount = additionalCostFor booking newEnd,
      description = ExtensionPayment (title itemDoc), bookingId = Some b\<rparr>"

definition extendedBooking :: "booking_doc \<Rightarrow> date \<Rightarrow> booking_doc" where
  "extendedBooking booking newEnd =
     booking\<lparr>endDate := newEnd,
             pricing := (pricing booking)
               \<lparr>totalDays := jsAdd (totalDays (pricing booking)) (additionalDaysFor booking newEnd),
                subtotal := jsAdd (subtotal (pricing booking)) (additionalCostFor booking newEnd),
                totalAmount :=
                  jsAdd (totalAmount (pricing booking)) (additionalCostFor booking newEnd),
                lenderEarnings :=
                  jsAdd (lenderEarnings (pricing booking)) (additionalCostFor booking newEnd)\<rparr>,
             timeline := timeline booking
               @ [(''extended'', ExtendedNote (additionalDaysFor booking newEnd) newEnd)]\<rparr>"

text \<open>A whole number of magnitude at most \<open>2\<^sup>5\<^sup>3\<close>: every such number is a double.\<close>

definition wholeNumber :: "rat \<Rightarrow> bool" where
  "wholeNumber x = (of_int \<lfloor>x\<rfloor> = x \<and> \<bar>x\<bar> \<le> 2 ^ 53)"





section \<open>Proofs\<close>

subsection \<open>Whole numbers are not rounded\<close>

lemma roundHalfEven_of_int: "roundHalfEven (of_int j) = j"
  by (simp add: roundHalfEven_def)

lemma floorLog2_of_int:
  assumes "0 < m"
  shows "floorLog2 (of_int m) = bitlen m - 1"
proof -
  have "(2::int) ^ nat (bitlen m - 1) \<le> m"
    using bitlen_bounds [OF assms] by simp
  moreover have "1 \<le> bitlen m"
    using assms by (simp add: bitlen_alt_def)
  moreover have "bitlen 1 = 1"
    by (simp add: bitlen_alt_def)
  ultimately show ?thesis
    by (simp add: floorLog2_def quotient_of_int twoPow_def)
qed

lemma toDouble_of_int:
  assumes "\<bar>n\<bar> \<le> 2 ^ 53"
  shows "toDouble (of_int n) = of_int n"
proof (cases "n = 0")
  case True
  then show ?thesis by (simp add: toDouble_def)
next
  case False
  define m where "m = \<bar>n\<bar>"
  define k where "k = bitlen m - 1"
  have m: "0 < m" "m \<le> 2 ^ 53" using False assms by (simp_all add: m_def)
  have lo: "2 ^ nat k \<le> m" and hi: "m < 2 ^ nat (k + 1)"
    using bitlen_bounds [OF m(1)] by (simp_all add: k_def)
  have k0: "0 \<le> k" using m(1) by (simp add: k_def bitlen_alt_def)
  have k53: "k \<le> 53"
  proof (rule ccontr)
    assume "\<not> k \<le> 53"
    then have "54 \<le> nat k" by simp
    then have "(2::int) ^ 54 \<le> 2 ^ nat k" by (rule power_increasing) simp
    with lo m(2) show False by simp
  qed
  have e: "floorLog2 \<bar>of_int n :: rat\<bar> = k"
    using floorLog2_of_int [OF m(1)] by (simp add: m_def k_def)
  have "\<exists>j. (of_int n :: rat) / twoPow (k - 52) = of_int j
            \<and> of_int j * twoPow (k - 52) = (of_int n :: rat)"
  proof (cases "k \<le> 52")
    case True
    then have "twoPow (k - 52) = 1 / 2 ^ nat (52 - k)"
      by (cases "k = 52") (simp_all add: twoPow_def)
    then show ?thesis
      by (intro exI [of _ "n * 2 ^ nat (52 - k)"]) simp
  next
    case False
    then have k: "k = 53" using k53 by simp
    then have "m = 2 ^ 53" using lo m(2) by simp
    then have "n = 2 ^ 53 \<or> n = - (2 ^ 53)" by (auto simp add: m_def abs_if split: if_splits)
    then show ?thesis
      by (auto simp add: k twoPow_def intro: exI [of _ "2 ^ 52"] exI [of _ "- (2 ^ 52)"])
  qed
  then obtain j where j: "(of_int n :: rat) / twoPow (k - 52) = of_int j"
    "of_int j * twoPow (k - 52) = (of_int n :: rat)" by blast
  have j53: "k = 53 \<Longrightarrow> \<bar>j\<bar> \<noteq> 2 ^ 53"
  proof
    assume k: "k = 53" and a: "\<bar>j\<bar> = 2 ^ 53"
    from j(2) k have "(of_int n :: rat) = of_int (j * 2)" by (simp add: twoPow_def)
    then have "n = j * 2" by (simp only: of_int_eq_iff)
    then have "\<bar>n\<bar> = 2 ^ 54" using a by (simp add: abs_mult)
    with assms show False by simp
  qed
  show ?thesis
    using False e k0 k53 j j53
    by (simp add: toDouble_def Let_def roundHalfEven_of_int max_def)
qed

lemma toDouble_Ints: "x \<in> \<int> \<Longrightarrow> \<bar>x\<bar> \<le> 9007199254740992 \<Longrightarrow> toDouble x = x"
proof -
  assume "x \<in> \<int>" and b: "\<bar>x\<bar> \<le> 9007199254740992"
  then obtain n where x: "x = of_int n" by (auto elim: Ints_cases)
  with b have "(of_int \<bar>n\<bar> :: rat) \<le> of_int 9007199254740992" by simp
  then have "\<bar>n\<bar> \<le> 9007199254740992" by (simp only: of_int_le_iff)
  then have "\<bar>n\<bar> \<le> 2 ^ 53" by simp
  then show "toDouble x = x" unfolding x by (rule toDouble_of_int)
qed

lemma toDouble_wholeNumber: "wholeNumber x \<Longrightarrow> toDouble x = x"
proof -
  assume w: "wholeNumber x"
  then have "of_int \<lfloor>x\<rfloor> = x" by (simp add: wholeNumber_def)
  then have i: "x \<in> \<int>" by (metis Ints_of_int)
  have "\<bar>x\<bar> \<le> 9007199254740992" using w by (simp add: wholeNumber_def)
  with i show ?thesis by (rule toDouble_Ints)
qed

lemma Math_round_of_int: "Math_round (of_int n) = of_int n"
proof -
  have "\<lfloor>(of_int n :: rat) + 1 / 2\<rfloor> = n"
    by (rule floor_unique) simp_all
  then show ?thesis by (simp add: Math_round_def)
qed

lemma Math_round_numeral: "Math_round (numeral n) = numeral n"
  using Math_round_of_int [of "numeral n"] by simp

lemmas js_defs = jsAdd_def jsSub_def jsMul_def jsDiv_def

subsection \<open>The arithmetic on known values\<close>

text \<open>
  \<^verbatim>\<open>0.1 + 0.2\<close> is \<^verbatim>\<open>0.30000000000000004\<close>; \<^verbatim>\<open>9.2 * 25\<close> is
  \<^verbatim>\<open>229.99999999999997\<close>; \<^verbatim>\<open>250 * 64.6 / 100\<close> is \<^verbatim>\<open>161.49999999999997\<close>, so
  that the deposit of an item worth 250 at 64.6 percent is 161;
  \<^verbatim>\<open>9007199254740993\<close> is read as \<^verbatim>\<open>9007199254740992\<close>.
\<close>

lemma one_tenth_plus_two_tenths:
  "jsAdd (toDouble (1 / 10)) (toDouble (2 / 10)) = 1351079888211149 / 4503599627370496"
  by code_simp

lemma subtotal_of_25_days_at_9_2:
  "subtotal (pricing (calculatePricing (newBooking 0 0 0 0 2160000000) (toDouble (92 / 10)) 0 0))
     = 8092405580431359 / 35184372088832"
  by code_simp

lemma deposit_of_250_at_64_6_percent:
  "jsDiv (jsMul 250 (toDouble (646 / 10))) 100 = 5682276092346367 / 35184372088832
   \<and> depositAmount (pricing (calculatePricing (newBooking 0 0 0 0 86400000) 1 250
         (toDouble (646 / 10)))) = 161"
  by code_simp

lemma odd_integer_above_2_53: "toDouble 9007199254740993 = 9007199254740992"
  by code_simp

subsection \<open>Rounding does not change a count of days\<close>

text \<open>
  A quotient below \<open>2\<^sup>2\<^sup>7\<close> is rounded by at most \<open>2\<^sup>-\<^sup>2\<^sup>7\<close>, less than the
  distance \<open>1 / 86400000\<close> of a quotient of milliseconds by a day from the next
  whole number: \<^verbatim>\<open>Math.ceil\<close> of the rounded quotient is the ceiling of the exact one.
\<close>

lemma twoPow_powi: "twoPow e = 2 powi e"
  by (simp add: twoPow_def power_int_def power_one_over)

lemma twoPow_pos: "0 < twoPow e"
  by (simp add: twoPow_powi)

lemma twoPow_mono: "a \<le> b \<Longrightarrow> twoPow a \<le> twoPow b"
  by (simp add: twoPow_powi power_int_increasing)

lemma twoPow_add: "twoPow (a + b) = twoPow a * twoPow b"
  by (simp add: twoPow_powi power_int_add)

lemma roundHalfEven_err: "\<bar>of_int (roundHalfEven y) - y\<bar> \<le> 1 / 2"
  unfolding roundHalfEven_def Let_def
  by (auto simp add: abs_if) linarith+

lemma floorLog2_le:
  assumes "0 < x"
  shows "twoPow (floorLog2 x) \<le> x"
proof -
  obtain p q where pq: "quotient_of x = (p, q)" by (cases "quotient_of x")
  then have q: "0 < q" by (rule quotient_of_denom_pos)
  have x: "x = of_int p / of_int q" using pq by (rule quotient_of_div)
  have p: "0 < p" using assms q x by (simp add: zero_less_divide_iff)
  define k where "k = bitlen p - bitlen q"
  show ?thesis
  proof (cases "twoPow k \<le> x")
    case True
    then show ?thesis by (simp add: floorLog2_def pq k_def)
  next
    case False
    have bp: "2 ^ nat (bitlen p - 1) \<le> p" using bitlen_bounds [OF p] by simp
    have bq: "q < 2 ^ nat (bitlen q)" using bitlen_bounds [OF q] by simp
    have b1: "1 \<le> bitlen p" "1 \<le> bitlen q" using p q by (simp_all add: bitlen_alt_def)
    have "k - 1 = (bitlen p - 1) + (- bitlen q)" by (simp add: k_def)
    then have "twoPow (k - 1) = twoPow (bitlen p - 1) * twoPow (- bitlen q)"
      by (simp only: twoPow_add)
    also have "\<dots> = 2 ^ nat (bitlen p - 1) / 2 ^ nat (bitlen q)"
      using b1 by (simp add: twoPow_def)
    also have "\<dots> \<le> of_int p / of_int q"
    proof (rule frac_le)
      show "(2::rat) ^ nat (bitlen p - 1) \<le> of_int p"
        using bp by (metis of_int_le_iff of_int_numeral of_int_power)
      show "(of_int q :: rat) \<le> 2 ^ nat (bitlen q)"
        using bq by (metis less_imp_le of_int_le_iff of_int_numeral of_int_power)
    qed (use p q in simp_all)
    finally have "twoPow (k - 1) \<le> x" by (simp add: x)
    then show ?thesis using False by (simp add: floorLog2_def pq k_def)
  qed
qed

lemma toDouble_error:
  assumes "0 < x" and "x < 2 ^ 27"
  shows "\<bar>toDouble x - x\<bar> \<le> 1 / 2 ^ 27"
proof -
  define e where "e = max (floorLog2 x) (- 1022)"
  define n where "n = roundHalfEven (x / twoPow (e - 52))"
  have "floorLog2 x < 27"
  proof (rule ccontr)
    assume "\<not> floorLog2 x < 27"
    then have "twoPow 27 \<le> twoPow (floorLog2 x)" by (intro twoPow_mono) simp
    also have "\<dots> \<le> x" using assms(1) by (rule floorLog2_le)
    finally show False using assms(2) by (simp add: twoPow_def)
  qed
  then have e26: "e \<le> 26" using assms(1) by (simp add: e_def)
  then have ne: "\<not> 1023 < max (floorLog2 x) (- 1022)" "max (floorLog2 x) (- 1022) \<noteq> 1023"
    by (simp_all add: e_def)
  have d: "toDouble x = of_int n * twoPow (e - 52)"
    unfolding n_def e_def using assms(1) ne by (simp add: toDouble_def Let_def abs_of_pos)
  have "\<bar>of_int n - x / twoPow (e - 52)\<bar> \<le> 1 / 2"
    unfolding n_def by (rule roundHalfEven_err)
  then have "\<bar>of_int n - x / twoPow (e - 52)\<bar> * twoPow (e - 52) \<le> 1 / 2 * twoPow (e - 52)"
    using twoPow_pos [of "e - 52"] by (intro mult_right_mono) simp_all
  moreover have "\<bar>of_int n - x / twoPow (e - 52)\<bar> * twoPow (e - 52) = \<bar>toDouble x - x\<bar>"
  proof -
    have "\<bar>of_int n - x / twoPow (e - 52)\<bar> * twoPow (e - 52)
            = \<bar>(of_int n - x / twoPow (e - 52)) * twoPow (e - 52)\<bar>"
      using twoPow_pos [of "e - 52"] by (simp add: abs_mult)
    also have "(of_int n - x / twoPow (e - 52)) * twoPow (e - 52)
                 = of_int n * twoPow (e - 52) - x"
      using twoPow_pos [of "e - 52"] by (simp add: left_diff_distrib)
    finally show ?thesis by (simp add: d)
  qed
  moreover have "twoPow (e - 52) \<le> twoPow (- 26)"
    using e26 by (intro twoPow_mono) simp
  ultimately have "\<bar>toDouble x - x\<bar> \<le> 1 / 2 * twoPow (- 26)" by simp
  then show ?thesis by (simp add: twoPow_def)
qed

lemma ceil_quotient_rounded:
  assumes "0 < m" and "m \<le> 2 ^ 53"
  shows "\<lceil>toDouble (of_int m / 86400000)\<rceil> = \<lceil>(of_int m :: rat) / 86400000\<rceil>"
proof -
  define x :: rat where "x = of_int m / 86400000"
  define c where "c = \<lceil>x\<rceil>"
  have xpos: "0 < x" using assms(1) by (simp add: x_def)
  have "(of_int m :: rat) \<le> of_int (2 ^ 53)" using assms(2) by (simp only: of_int_le_iff)
  then have xlt: "x < 2 ^ 27" by (simp add: x_def)
  have err: "\<bar>toDouble x - x\<bar> \<le> 1 / 2 ^ 27" using xpos xlt by (rule toDouble_error)
  have cx: "of_int c - 1 < x" "x \<le> of_int c"
    using ceiling_correct [of x] by (simp_all add: c_def)
  have lo: "of_int c - 1 + 1 / 86400000 \<le> x"
  proof -
    have "(of_int ((c - 1) * 86400000) :: rat) < of_int m" using cx(1) by (simp add: x_def)
    then have "(c - 1) * 86400000 < m" by (simp only: of_int_less_iff)
    then have "(c - 1) * 86400000 + 1 \<le> m" by simp
    then have "(of_int ((c - 1) * 86400000 + 1) :: rat) \<le> of_int m" by (simp only: of_int_le_iff)
    then show ?thesis by (simp add: x_def)
  qed
  have "of_int c - 1 < toDouble x \<and> toDouble x \<le> of_int c"
  proof (cases "x = of_int c")
    case True
    have "\<bar>c\<bar> \<le> 2 ^ 53"
    proof -
      have "(of_int c :: rat) < of_int (2 ^ 27)" using xlt True by simp
      then have "c < 2 ^ 27" by (simp only: of_int_less_iff)
      moreover have "(of_int 0 :: rat) < of_int c" using xpos True by simp
      then have "0 < c" by (simp only: of_int_less_iff)
      ultimately show ?thesis by simp
    qed
    then have "toDouble x = x" unfolding True by (rule toDouble_of_int)
    then show ?thesis using cx by simp
  next
    case False
    have "(of_int m :: rat) < of_int (c * 86400000)" using cx(2) False by (simp add: x_def)
    then have "m < c * 86400000" by (simp only: of_int_less_iff)
    then have "m \<le> c * 86400000 - 1" by simp
    then have "(of_int m :: rat) \<le> of_int (c * 86400000 - 1)" by (simp only: of_int_le_iff)
    then have hi: "x \<le> of_int c - 1 / 86400000" by (simp add: x_def)
    have "toDouble x - x \<le> 1 / 2 ^ 27" "x - toDouble x \<le> 1 / 2 ^ 27"
      using err by linarith+
    then show ?thesis using lo hi by simp
  qed
  then have "\<lceil>toDouble x\<rceil> = c" by (simp add: ceiling_unique)
  then show ?thesis by (simp add: c_def x_def)
qed

lemma daysBetween_exact:
  assumes "s < e" and "e - s \<le> 2 ^ 53"
  shows "daysBetween s e = of_int \<lceil>(of_int (e - s) :: rat) / 86400000\<rceil>"
proof -
  have "\<bar>e - s\<bar> \<le> 2 ^ 53" using assms by simp
  then have "toDouble (of_int (e - s)) = of_int (e - s)" by (rule toDouble_of_int)
  then have "jsSub (of_int e) (of_int s) = of_int (e - s)" by (simp add: jsSub_def)
  moreover have "0 < e - s" using assms(1) by simp
  ultimately show ?thesis using assms(2)
    by (simp add: daysBetween_def Math_ceil_def jsDiv_def msPerDay_def ceil_quotient_rounded
        del: of_int_diff)
qed

text \<open>The platform fee of 500, \<^verbatim>\<open>Math.round(500 * 0.05)\<close>, and of 100.\<close>

lemma fee_500: "Math_round (toDouble (500 * platformRate)) = 25"
  by code_simp

subsection \<open>Evaluating floors and ceilings of rational numerals\<close>

lemma floor_rat_numeral: "\<lfloor>numeral a / numeral b :: rat\<rfloor> = numeral a div numeral b"
  by (metis floor_divide_of_int_eq of_int_numeral)

lemma ceiling_rat_numeral: "\<lceil>numeral a / numeral b :: rat\<rceil> = - (- numeral a div numeral b)"
  by (metis ceiling_divide_eq_div of_int_numeral)

subsection \<open>The wallet ledger\<close>

lemma replay_snoc: "replay b (txs @ [tx]) = jsAdd (replay b txs) (signedAmount tx)"
  by (simp add: replay_def)

lemma replay_unrounded:
  "unrounded b txs \<Longrightarrow> replay b txs = b + creditTotal txs - debitTotal txs"
proof (induction txs arbitrary: b)
  case Nil
  then show ?case by (simp add: replay_def creditTotal_def debitTotal_def)
next
  case (Cons tx txs)
  then have "replay (b + signedAmount tx) txs
               = b + signedAmount tx + creditTotal txs - debitTotal txs"
    by simp
  moreover have "replay b (tx # txs) = replay (b + signedAmount tx) txs"
    using Cons.prems by (simp add: replay_def)
  ultimately show ?case
    by (cases "tx_type tx") (simp_all add: creditTotal_def debitTotal_def signedAmount_def)
qed

lemma ledgerOk_push:
  assumes "ledgerOk u" and "txMatches inc tx"
  shows "ledgerOk (u\<lparr>wallet := \<lparr>balance = jsAdd (balance (wallet u)) inc,
                         transactions = transactions (wallet u) @ [tx]\<rparr>\<rparr>)"
  using assms by (simp add: ledgerOk_def txMatches_def replay_snoc)

lemma ledgerOk_totalEarnings: "ledgerOk (u\<lparr>totalEarnings := e\<rparr>) = ledgerOk u"
  by (simp add: ledgerOk_def)

lemma ledgerOk_isSuspended: "ledgerOk (u\<lparr>isSuspended := e\<rparr>) = ledgerOk u"
  by (simp add: ledgerOk_def)

lemma ledgerInv_upd:
  "ledgerInv d \<Longrightarrow> ledgerOk u \<Longrightarrow> ledgerInv (d\<lparr>users := (users d)(uid \<mapsto> u)\<rparr>)"
  by (simp add: ledgerInv_def)

lemma ledgerInv_lookup: "ledgerInv d \<Longrightarrow> users d uid = Some u \<Longrightarrow> ledgerOk u"
  by (simp add: ledgerInv_def)

lemma ledgerInv_walletUpdate:
  assumes "ledgerInv d" and "txMatches inc tx"
  shows "ledgerInv (walletUpdate d uid inc tx)"
proof (cases "users d uid")
  case None
  then show ?thesis using assms by (simp add: walletUpdate_def)
next
  case (Some u)
  then have "ledgerOk u" using assms(1) by (rule ledgerInv_lookup[rotated])
  then show ?thesis using Some assms
    by (simp add: walletUpdate_def ledgerInv_upd ledgerOk_push)
qed

lemma ledgerInv_earningsUpdate:
  assumes "ledgerInv d" and "txMatches inc tx"
  shows "ledgerInv (earningsUpdate d uid inc tx)"
proof (cases "users d uid")
  case None
  then show ?thesis using assms by (simp add: earningsUpdate_def)
next
  case (Some u)
  then have "ledgerOk u" using assms(1) by (rule ledgerInv_lookup[rotated])
  then have "ledgerOk (u\<lparr>wallet := \<lparr>balance = jsAdd (balance (wallet u)) inc,
                         transactions = transactions (wallet u) @ [tx]\<rparr>\<rparr>)"
    using assms(2) by (rule ledgerOk_push)
  then show ?thesis using Some assms(1)
    by (simp add: earningsUpdate_def ledgerInv_upd ledgerOk_totalEarnings)
qed

lemma users_saveBooking: "users (snd (saveBooking d i b)) = users d"
  by (simp add: saveBooking_def)

lemma users_setAvailable: "users (setAvailable d i f) = users d"
  by (cases "items d i") (simp_all add: setAvailable_def)

lemma users_incItemStats: "users (incItemStats d i e) = users d"
  by (cases "items d i") (simp_all add: incItemStats_def)

lemma ledgerInv_users_eq: "users d' = users d \<Longrightarrow> ledgerInv d' = ledgerInv d"
  by (simp add: ledgerInv_def)

lemma ledgerInv_saveBooking: "ledgerInv (snd (saveBooking d i b)) = ledgerInv d"
  by (rule ledgerInv_users_eq) (rule users_saveBooking)

lemma ledgerInv_setAvailable: "ledgerInv (setAvailable d i f) = ledgerInv d"
  by (rule ledgerInv_users_eq) (rule users_setAvailable)

lemma ledgerInv_incItemStats: "ledgerInv (incItemStats d i f) = ledgerInv d"
  by (rule ledgerInv_users_eq) (rule users_incItemStats)

lemma ledgerInv_bookings_update: "ledgerInv (d\<lparr>bookings := bs\<rparr>) = ledgerInv d"
  by (simp add: ledgerInv_def)

lemma ledgerInv_items_update: "ledgerInv (d\<lparr>items := bs\<rparr>) = ledgerInv d"
  by (simp add: ledgerInv_def)

lemmas ledger_simps = ledgerInv_walletUpdate ledgerInv_earningsUpdate ledgerInv_saveBooking
  ledgerInv_setAvailable ledgerInv_incItemStats ledgerInv_bookings_update ledgerInv_items_update
  txMatches_def signedAmount_def

lemma ledgerInv_approveBranch: "ledgerInv d \<Longrightarrow> ledgerInv (snd (approveBranch d i b n))"
  by (simp add: approveBranch_def Let_def ledger_simps split: option.splits)

lemma ledgerInv_cancelRefund:
  "ledgerInv d \<Longrightarrow> cancelRefund d i b = Some d1 \<Longrightarrow> ledgerInv d1"
  by (auto simp add: cancelRefund_def ledger_simps split: option.splits if_splits)

lemma ledgerInv_cancelBranch: "ledgerInv d \<Longrightarrow> ledgerInv (snd (cancelBranch d i b n))"
  by (simp add: cancelBranch_def Let_def ledger_simps ledgerInv_cancelRefund split: option.splits)

lemma ledgerInv_activeBranch: "ledgerInv d \<Longrightarrow> ledgerInv (snd (activeBranch d i b))"
  by (simp add: activeBranch_def Let_def ledger_simps split: option.splits)

lemma ledgerInv_completeBranch: "ledgerInv d \<Longrightarrow> ledgerInv (snd (completeBranch d i b))"
  by (simp add: completeBranch_def Let_def ledger_simps split: option.splits)

lemma ledgerInv_updateBookingStatus:
  "ledgerInv d \<Longrightarrow> ledgerInv (snd (updateBookingStatus d u i s n))"
  unfolding updateBookingStatus_def
  by (simp add: ledgerInv_approveBranch ledgerInv_cancelBranch ledgerInv_activeBranch
      ledgerInv_completeBranch ledgerInv_saveBooking split: option.splits)

lemma ledgerInv_createBooking:
  "ledgerInv d \<Longrightarrow> ledgerInv (snd (createBooking d u i s e))"
  by (simp add: createBooking_def Let_def ledger_simps split: option.splits)

lemma ledgerInv_addBookingMessage:
  "ledgerInv d \<Longrightarrow> ledgerInv (snd (addBookingMessage d u i m))"
  by (simp add: addBookingMessage_def ledger_simps split: option.splits)

lemma ledgerInv_extendRentalPeriod:
  "ledgerInv d \<Longrightarrow> ledgerInv (snd (extendRentalPeriod d u i e))"
  by (simp add: extendRentalPeriod_def Let_def ledger_simps split: option.splits)

lemma ledgerInv_addToWallet:
  "ledgerInv d \<Longrightarrow> ledgerInv (snd (addToWallet d u a))"
  by (simp add: addToWallet_def ledger_simps split: option.splits)

lemma ledgerInv_complaintRefund:
  "ledgerInv d \<Longrightarrow> ledgerInv (complaintRefund d u c a)"
  by (simp add: complaintRefund_def ledger_simps)

lemma ledgerInv_toggleUserSuspension:
  assumes "ledgerInv d"
  shows "ledgerInv (snd (toggleUserSuspension d u r))"
proof (cases "users d u")
  case None
  then show ?thesis using assms by (simp add: toggleUserSuspension_def)
next
  case (Some user)
  then have "ledgerOk user" using assms by (rule ledgerInv_lookup[rotated])
  then have "\<And>f. ledgerInv (d\<lparr>users := (users d)(u \<mapsto> user\<lparr>isSuspended := f\<rparr>)\<rparr>)"
    using assms by (simp add: ledgerInv_upd ledgerOk_isSuspended)
  then show ?thesis using Some assms
    by (simp add: toggleUserSuspension_def Let_def ledgerInv_bookings_update)
qed

lemma ledgerOk_newUser: "ledgerOk newUser"
  by (simp add: ledgerOk_def newUser_def replay_def)

lemma ledgerInv_register:
  "ledgerInv d \<Longrightarrow> ledgerInv (snd (register d u))"
  by (simp add: register_def ledgerInv_upd ledgerOk_newUser split: option.splits)

lemma ledgerInv_step: "ledgerInv d \<Longrightarrow> ledgerInv (step d r)"
  by (cases r) (simp_all add: ledgerInv_register ledgerInv_addToWallet ledgerInv_createBooking
      ledgerInv_updateBookingStatus ledgerInv_addBookingMessage ledgerInv_extendRentalPeriod
      ledgerInv_complaintRefund ledgerInv_toggleUserSuspension ledgerInv_items_update)

lemma ledgerInv_run: "ledgerInv d \<Longrightarrow> ledgerInv (run d rs)"
  by (induction rs arbitrary: d) (simp_all add: ledgerInv_step)

lemma ledgerInv_emptyDb: "ledgerInv emptyDb"
  by (simp add: ledgerInv_def emptyDb_def)

subsection \<open>The pricing snapshot\<close>

lemma bookings_walletUpdate: "bookings (walletUpdate d u i t) = bookings d"
  by (cases "users d u") (simp_all add: walletUpdate_def)

lemma bookings_earningsUpdate: "bookings (earningsUpdate d u i t) = bookings d"
  by (cases "users d u") (simp_all add: earningsUpdate_def)

lemma bookings_setAvailable: "bookings (setAvailable d i f) = bookings d"
  by (cases "items d i") (simp_all add: setAvailable_def)

lemma bookings_incItemStats: "bookings (incItemStats d i e) = bookings d"
  by (cases "items d i") (simp_all add: incItemStats_def)

lemma findBooking_walletUpdate: "findBooking (walletUpdate d u i t) = findBooking d"
  by (simp add: findBooking_def bookings_walletUpdate fun_eq_iff)










lemma pricingOk_cong: "pricing b' = pricing b \<Longrightarrow> pricingOk b' = pricingOk b"
  by (simp add: pricingOk_def)




















lemma additionalDaysFor_eq: "daysBetween (endDate b) e = additionalDaysFor b e"
  by (simp add: daysBetween_def additionalDaysFor_def msPerDay_def)











subsection \<open>Unfolding the handlers\<close>

lemmas eval_defs = register_def addToWallet_def createBooking_def updateBookingStatus_def
  approveBranch_def cancelBranch_def cancelRefund_def activeBranch_def completeBranch_def
  extendRentalPeriod_def addBookingMessage_def complaintRefund_def toggleUserSuspension_def
  walletUpdate_def earningsUpdate_def setAvailable_def incItemStats_def saveBooking_def
  findBooking_def conflictingBooking_def calculatePricing_def newBooking_def addTimelineEntry_def
  preSaveOk_def noteOr_def daysBetween_def Math_ceil_def msPerDay_def emptyDb_def Let_def
  jsonItem_def js_defs toDouble_Ints Math_round_numeral fee_500 floor_rat_numeral
  ceiling_rat_numeral

lemmas example_defs = drill_def fiveDays_def sevenDays_def tenDays_def newUser_def pendingBooking_def
  requestedDb_def paymentTx_def chargedBorrower_def approvedBooking_def approvedDb_def
  camera_def cameraDb_def extendedDb_def

lemma run_requested: "run emptyDb reqsRequested = requestedDb"
  by (simp add: reqsRequested_def example_defs eval_defs)

lemma run_approved: "run emptyDb reqsApproved = approvedDb"
  by (simp add: reqsApproved_def reqsRequested_def example_defs eval_defs)

lemma db_updates:
  "d\<lparr>users := us, items := is, bookings := bs\<rparr> = \<lparr>users = us, items = is, bookings = bs\<rparr>"
  by (cases d) simp

lemma saveBooking_same:
  "findBooking d i = Some b \<Longrightarrow>
   saveBooking d i b = (if preSaveOk b then Success else Failure ServerError, d)"
  by (cases d) (auto simp add: saveBooking_def findBooking_def split: if_splits)

lemma walletUpdate_Some:
  "users d uid = Some u \<Longrightarrow>
   walletUpdate d uid inc tx = d\<lparr>users := (users d)(uid \<mapsto> walletAfter u inc tx)\<rparr>"
  by (simp add: walletUpdate_def walletAfter_def)

lemma setAvailable_Some:
  "items d iid = Some i \<Longrightarrow>
   setAvailable d iid f = d\<lparr>items := (items d)(iid \<mapsto> i\<lparr>isAvailable := f\<rparr>)\<rparr>"
  by (simp add: setAvailable_def)

lemma preSaveOk_iff: "preSaveOk b = (startDate b < endDate b)"
  by (auto simp add: preSaveOk_def)

lemma findBooking_users_update: "findBooking (d\<lparr>users := us\<rparr>) = findBooking d"
  by (simp add: findBooking_def fun_eq_iff)

lemma findBooking_items_update: "findBooking (d\<lparr>items := us\<rparr>) = findBooking d"
  by (simp add: findBooking_def fun_eq_iff)

lemma findBooking_saveBooking:
  "findBooking d i = Some b \<Longrightarrow>
   findBooking (snd (saveBooking d i b')) i = Some (if preSaveOk b' then b' else b)"
  by (auto simp add: findBooking_def saveBooking_def split: if_splits)

lemma items_saveBooking: "items (snd (saveBooking d i b)) = items d"
  by (simp add: saveBooking_def)

subsection \<open>Cancellation with the deposit paid\<close>

lemma cancel_with_deposit:
  assumes "findBooking d b = Some booking" and "depositPaid (payment booking)"
    and "users d (lender booking) = Some lenderDoc"
    and "users d (borrower booking) = Some borrowerDoc"
    and "items d (item booking) = Some itemDoc"
  shows "updateBookingStatus d (lender booking) b ''cancelled'' note =
     saveBooking
       (d\<lparr>users := (users d)(borrower booking \<mapsto>
            walletAfter borrowerDoc (totalAmount (pricing booking)) (refundTx b booking itemDoc)),
          items := (items d)(item booking \<mapsto> itemDoc\<lparr>isAvailable := True\<rparr>)\<rparr>)
       b (addTimelineEntry (booking\<lparr>status := Cancelled\<rparr>) ''cancelled''
            (Note (noteOr note ''Booking cancelled'')))"
  using assms
  by (simp add: updateBookingStatus_def cancelBranch_def cancelRefund_def Let_def
      walletUpdate_Some setAvailable_Some refundTx_def)

lemma cancel_with_deposit_state:
  assumes "findBooking d b = Some booking" and "depositPaid (payment booking)"
    and "users d (lender booking) = Some lenderDoc"
    and "users d (borrower booking) = Some borrowerDoc"
    and "items d (item booking) = Some itemDoc"
    and "d1 = snd (updateBookingStatus d (lender booking) b ''cancelled'' note)"
  shows "users d1 = (users d)(borrower booking \<mapsto>
            walletAfter borrowerDoc (totalAmount (pricing booking)) (refundTx b booking itemDoc))"
    and "items d1 (item booking) = Some (itemDoc\<lparr>isAvailable := True\<rparr>)"
    and "\<exists>booking'. findBooking d1 b = Some booking' \<and> depositPaid (payment booking')
           \<and> lender booking' = lender booking \<and> borrower booking' = borrower booking
           \<and> item booking' = item booking \<and> pricing booking' = pricing booking"
proof -
  note c = cancel_with_deposit [OF assms(1-5), of "note"]
  show "users d1 = (users d)(borrower booking \<mapsto>
            walletAfter borrowerDoc (totalAmount (pricing booking)) (refundTx b booking itemDoc))"
    by (simp add: assms(6) c users_saveBooking)
  show "items d1 (item booking) = Some (itemDoc\<lparr>isAvailable := True\<rparr>)"
    by (simp add: assms(6) c items_saveBooking)
  have "findBooking (d\<lparr>users := (users d)(borrower booking \<mapsto>
            walletAfter borrowerDoc (totalAmount (pricing booking)) (refundTx b booking itemDoc)),
          items := (items d)(item booking \<mapsto> itemDoc\<lparr>isAvailable := True\<rparr>)\<rparr>) b = Some booking"
    using assms(1) by (simp add: findBooking_users_update findBooking_items_update)
  then show "\<exists>booking'. findBooking d1 b = Some booking' \<and> depositPaid (payment booking')
           \<and> lender booking' = lender booking \<and> borrower booking' = borrower booking
           \<and> item booking' = item booking \<and> pricing booking' = pricing booking"
    using assms(2) by (simp add: assms(6) c findBooking_saveBooking addTimelineEntry_def)
qed

subsection \<open>Booking creation\<close>

lemma conflictingBooking_iff:
  "(conflictingBooking d itemId s e \<noteq> None) = dateConflict d itemId s e"
  by (auto simp add: conflictingBooking_def dateConflict_def find_None_iff)

lemma users_createBooking: "users (snd (createBooking d reqUser itemId s e)) = users d"
  by (simp add: createBooking_def Let_def split: option.splits)

subsection \<open>Extension\<close>

lemma extend_unfold:
  assumes "findBooking d b = Some booking" and "items d (item booking) = Some itemDoc"
    and "users d (borrower booking) = Some borrowerDoc"
  shows "extendRentalPeriod d reqUser b newEnd =
     (if owner itemDoc \<noteq> reqUser then (Failure ExtendForbidden, d)
      else if \<not> (status booking = Approved \<or> status booking = Active)
        then (Failure NotExtendable, d)
      else if newEnd \<le> startDate booking then (Failure EndNotAfterStart, d)
      else if newEnd \<le> endDate booking then (Failure EndNotAfterCurrentEnd, d)
      else if balance (wallet borrowerDoc) < additionalCostFor booking newEnd
        then (Failure ExtensionInsufficientFunds, d)
      else (Success,
            \<lparr>users = (users d)(borrower booking \<mapsto>
                 walletAfter borrowerDoc (- additionalCostFor booking newEnd)
                   (extensionTx b booking itemDoc newEnd)),
             items = items d,
             bookings = (bookings d)[b := extendedBooking booking newEnd]\<rparr>))"
  using assms
  by (cases d) (simp add: extendRentalPeriod_def Let_def additionalCostFor_def additionalDaysFor_eq
      extendedBooking_def extensionTx_def walletUpdate_Some saveBooking_def preSaveOk_def
      addTimelineEntry_def)

subsection \<open>Stored bookings keep their dates in order and their users\<close>

lemma userExists_walletUpdate: "userExists (walletUpdate d u i t) = userExists d"
  by (cases "users d u") (auto simp add: walletUpdate_def userExists_def fun_eq_iff)

lemma userExists_earningsUpdate: "userExists (earningsUpdate d u i t) = userExists d"
  by (cases "users d u") (auto simp add: earningsUpdate_def userExists_def fun_eq_iff)

lemma userExists_setAvailable: "userExists (setAvailable d i f) = userExists d"
  by (simp add: userExists_def fun_eq_iff users_setAvailable)

lemma userExists_incItemStats: "userExists (incItemStats d i f) = userExists d"
  by (simp add: userExists_def fun_eq_iff users_incItemStats)

lemma refsInv_cong:
  "bookings d' = bookings d \<Longrightarrow> userExists d' = userExists d \<Longrightarrow> refsInv d' = refsInv d"
  by (simp add: refsInv_def bookingRefsOk_def)

lemma bookingRefsOk_cong:
  "userExists d' = userExists d \<Longrightarrow> bookingRefsOk d' b = bookingRefsOk d b"
  by (simp add: bookingRefsOk_def)

lemma refsInv_walletUpdate: "refsInv (walletUpdate d u i t) = refsInv d"
  by (rule refsInv_cong) (simp_all add: bookings_walletUpdate userExists_walletUpdate)

lemma refsInv_earningsUpdate: "refsInv (earningsUpdate d u i t) = refsInv d"
  by (rule refsInv_cong) (simp_all add: bookings_earningsUpdate userExists_earningsUpdate)

lemma refsInv_setAvailable: "refsInv (setAvailable d i f) = refsInv d"
  by (rule refsInv_cong) (simp_all add: bookings_setAvailable userExists_setAvailable)

lemma refsInv_incItemStats: "refsInv (incItemStats d i f) = refsInv d"
  by (rule refsInv_cong) (simp_all add: bookings_incItemStats userExists_incItemStats)

lemma refsInv_items_update: "refsInv (d\<lparr>items := x\<rparr>) = refsInv d"
  by (simp add: refsInv_def bookingRefsOk_def userExists_def)

lemma bookingRefsOk_walletUpdate: "bookingRefsOk (walletUpdate d u i t) b = bookingRefsOk d b"
  by (rule bookingRefsOk_cong) (rule userExists_walletUpdate)

lemma bookingRefsOk_earningsUpdate: "bookingRefsOk (earningsUpdate d u i t) b = bookingRefsOk d b"
  by (rule bookingRefsOk_cong) (rule userExists_earningsUpdate)

lemma bookingRefsOk_setAvailable: "bookingRefsOk (setAvailable d i f) b = bookingRefsOk d b"
  by (rule bookingRefsOk_cong) (rule userExists_setAvailable)

lemma bookingRefsOk_incItemStats: "bookingRefsOk (incItemStats d i f) b = bookingRefsOk d b"
  by (rule bookingRefsOk_cong) (rule userExists_incItemStats)

lemma refsInv_find: "refsInv d \<Longrightarrow> findBooking d i = Some b \<Longrightarrow> bookingRefsOk d b"
  by (auto simp add: refsInv_def findBooking_def split: if_splits)

text \<open>A save keeps the invariant when it keeps the two references: the hook checks the dates.\<close>

lemma refsInv_saveBooking:
  assumes "refsInv d" and "bookingRefsOk d b"
    and "borrower b' = borrower b" and "lender b' = lender b"
  shows "refsInv (snd (saveBooking d i b'))"
proof (cases "preSaveOk b'")
  case True
  have "set ((bookings d)[i := b']) \<subseteq> insert b' (set (bookings d))"
    by (rule set_update_subset_insert)
  moreover have "bookingRefsOk d b'"
    using assms(2-4) True by (simp add: bookingRefsOk_def preSaveOk_def)
  ultimately show ?thesis using assms(1) True
    by (auto simp add: saveBooking_def refsInv_def bookingRefsOk_def userExists_def)
next
  case False
  then show ?thesis using assms by (simp add: saveBooking_def)
qed

lemmas refs_simps = refsInv_walletUpdate refsInv_earningsUpdate refsInv_setAvailable
  refsInv_incItemStats bookingRefsOk_walletUpdate bookingRefsOk_earningsUpdate
  bookingRefsOk_setAvailable bookingRefsOk_incItemStats

lemma refsInv_approveBranch:
  assumes "refsInv d" and "bookingRefsOk d b"
  shows "refsInv (snd (approveBranch d i b n))"
  unfolding approveBranch_def Let_def
  by (auto split: option.splits intro!: refsInv_saveBooking [where b = b]
      simp add: refs_simps assms addTimelineEntry_def)

lemma refsInv_cancelRefund:
  "cancelRefund d i b = Some d1 \<Longrightarrow> refsInv d1 = refsInv d \<and> bookingRefsOk d1 b' = bookingRefsOk d b'"
  by (auto simp add: cancelRefund_def refs_simps split: option.splits if_splits)

lemma refsInv_cancelBranch:
  assumes "refsInv d" and "bookingRefsOk d b"
  shows "refsInv (snd (cancelBranch d i b n))"
proof (cases "cancelRefund d i b")
  case None
  then show ?thesis using assms by (simp add: cancelBranch_def)
next
  case (Some d1)
  from refsInv_cancelRefund [OF Some, of b]
  have r: "refsInv d1" "bookingRefsOk d1 b" using assms by simp_all
  show ?thesis unfolding cancelBranch_def Let_def
    by (auto split: option.splits intro!: refsInv_saveBooking [where b = b]
      simp add: refs_simps r Some addTimelineEntry_def)
qed

lemma refsInv_activeBranch:
  assumes "refsInv d" and "bookingRefsOk d b"
  shows "refsInv (snd (activeBranch d i b))"
  unfolding activeBranch_def Let_def
  by (auto split: option.splits intro!: refsInv_saveBooking [where b = b]
      simp add: refs_simps assms addTimelineEntry_def)

lemma refsInv_completeBranch:
  assumes "refsInv d" and "bookingRefsOk d b"
  shows "refsInv (snd (completeBranch d i b))"
  unfolding completeBranch_def Let_def
  by (auto split: option.splits intro!: refsInv_saveBooking [where b = b]
      simp add: refs_simps assms addTimelineEntry_def)

lemma refsInv_updateBookingStatus:
  assumes "refsInv d"
  shows "refsInv (snd (updateBookingStatus d u i s n))"
proof (cases "findBooking d i")
  case None
  then show ?thesis using assms by (simp add: updateBookingStatus_def)
next
  case (Some b)
  then have "bookingRefsOk d b" using assms by (rule refsInv_find[rotated])
  then show ?thesis using Some assms
    by (simp add: updateBookingStatus_def refsInv_approveBranch refsInv_cancelBranch
        refsInv_activeBranch refsInv_completeBranch refsInv_saveBooking [where b = b])
qed

lemma refsInv_append:
  "refsInv d \<Longrightarrow> bookingRefsOk d b \<Longrightarrow> refsInv (d\<lparr>bookings := bookings d @ [b]\<rparr>)"
  by (simp add: refsInv_def bookingRefsOk_def userExists_def)

lemma refsInv_createBooking:
  assumes "refsInv d"
  shows "refsInv (snd (createBooking d u i s e))"
  unfolding createBooking_def Let_def
  by (auto split: option.splits intro!: refsInv_append
      simp add: assms calculatePricing_def newBooking_def addTimelineEntry_def preSaveOk_def
        bookingRefsOk_def userExists_def Let_def)

lemma refsInv_addBookingMessage:
  assumes "refsInv d"
  shows "refsInv (snd (addBookingMessage d u i m))"
proof (cases "findBooking d i")
  case None
  then show ?thesis using assms by (simp add: addBookingMessage_def)
next
  case (Some b)
  then have "bookingRefsOk d b" using assms by (rule refsInv_find[rotated])
  then show ?thesis using Some assms
    by (simp add: addBookingMessage_def refsInv_saveBooking [where b = b])
qed

lemma refsInv_extendRentalPeriod:
  assumes "refsInv d"
  shows "refsInv (snd (extendRentalPeriod d u i e))"
proof (cases "findBooking d i")
  case None
  then show ?thesis using assms by (simp add: extendRentalPeriod_def)
next
  case (Some b)
  then have r: "bookingRefsOk d b" using assms by (rule refsInv_find[rotated])
  show ?thesis unfolding extendRentalPeriod_def Let_def
    by (auto split: option.splits intro!: refsInv_saveBooking [where b = b]
      simp add: refs_simps r assms Some addTimelineEntry_def)
qed

lemma refsInv_addToWallet: "refsInv d \<Longrightarrow> refsInv (snd (addToWallet d u a))"
  by (simp add: addToWallet_def refs_simps split: option.splits)

lemma refsInv_complaintRefund: "refsInv d \<Longrightarrow> refsInv (complaintRefund d u c a)"
  by (simp add: complaintRefund_def refs_simps)

lemma refsInv_toggleUserSuspension:
  "refsInv d \<Longrightarrow> refsInv (snd (toggleUserSuspension d u r))"
  by (auto simp add: toggleUserSuspension_def Let_def refsInv_def bookingRefsOk_def userExists_def
      split: option.splits)

lemma refsInv_register: "refsInv d \<Longrightarrow> refsInv (snd (register d u))"
  by (auto simp add: register_def refsInv_def bookingRefsOk_def userExists_def split: option.splits)

lemma refsInv_step: "refsInv d \<Longrightarrow> refsInv (step d r)"
  by (cases r) (simp_all add: refsInv_register refsInv_addToWallet refsInv_createBooking
      refsInv_updateBookingStatus refsInv_addBookingMessage refsInv_extendRentalPeriod
      refsInv_complaintRefund refsInv_toggleUserSuspension refsInv_items_update)

lemma refsInv_run: "refsInv d \<Longrightarrow> refsInv (run d rs)"
  by (induction rs arbitrary: d) (simp_all add: refsInv_step)

lemma refsInv_reachable: "refsInv (run emptyDb rs)"
  by (rule refsInv_run) (simp add: refsInv_def emptyDb_def)

section \<open>The claims\<close>

text \<open>
  Claim C1, as stated: for every user, from account creation onward, the wallet
  balance equals the sum of the credit amounts minus the sum of the debit amounts
  of the user's transactions. It fails for a fresh account: \<^verbatim>\<open>register\<close> creates
  the user with the schema's opening balance of 1000 and no transaction.
\<close>

theorem fresh_account_breaks_ledger_equation:
  "users (run emptyDb [ReqRegister 1]) 1 = Some newUser \<and> \<not> ledgerEq newUser"
  by (simp add: register_def emptyDb_def newUser_def ledgerEq_def creditTotal_def debitTotal_def)

text \<open>
  Claim C1, amended: for every user, in every state reached from the empty database
  by any sequence of requests, the wallet balance is the opening balance 1000 with
  the signed amounts of the user's transactions (plus the amount of a credit, minus
  the amount of a debit) added to it one after the other in the order of the
  history, each sum rounded to the nearest double as \<^verbatim>\<open>$inc\<close> rounds it; and every
  single request (booking payment debit, refund credit, earnings credit,
  deposit-refund credit, extension debit, wallet top-up, complaint refund)
  preserves this from any state in which it holds. Where none of these sums is
  rounded, the balance equals 1000 plus the sum of the credit amounts minus the
  sum of the debit amounts.
\<close>

theorem ledger_balance_replays_history:
  "(ledgerInv d \<longrightarrow> ledgerInv (step d r))
   \<and> ledgerInv (run emptyDb rs)
   \<and> (users (run emptyDb rs) uid = Some u \<and> unrounded 1000 (transactions (wallet u))
        \<longrightarrow> balance (wallet u)
              = 1000 + creditTotal (transactions (wallet u))
                     - debitTotal (transactions (wallet u)))"
proof (intro conjI impI)
  show "ledgerInv (step d r)" if "ledgerInv d"
    using that by (rule ledgerInv_step)
  show r: "ledgerInv (run emptyDb rs)"
    by (rule ledgerInv_run) (rule ledgerInv_emptyDb)
  show "balance (wallet u)
          = 1000 + creditTotal (transactions (wallet u)) - debitTotal (transactions (wallet u))"
    if "users (run emptyDb rs) uid = Some u \<and> unrounded 1000 (transactions (wallet u))"
  proof -
    from that have "users (run emptyDb rs) uid = Some u" by simp
    with r have "ledgerOk u" by (rule ledgerInv_lookup)
    then show ?thesis using that by (simp add: ledgerOk_def replay_unrounded)
  qed
qed

theorem ledger_balance_replays_history_witness:
  "users (run emptyDb reqsApproved) 2 = Some chargedBorrower
   \<and> unrounded 1000 (transactions (wallet chargedBorrower))
   \<and> balance (wallet chargedBorrower)
       = 1000 + creditTotal (transactions (wallet chargedBorrower))
              - debitTotal (transactions (wallet chargedBorrower))
   \<and> balance (wallet chargedBorrower) = 275
   \<and> debitTotal (transactions (wallet chargedBorrower)) = 725
   \<and> ledgerInv approvedDb
   \<and> ledgerInv (step approvedDb (cancelRequest 0))
   \<and> ledgerInv (run emptyDb reqsTopUps)
   \<and> map_option (balance \<circ> wallet) (users (run emptyDb reqsTopUps) 1)
       = Some (8798731850114663 / 8796093022208)
   \<and> map_option (\<lambda>u. replay 1000 (transactions (wallet u))) (users (run emptyDb reqsTopUps) 1)
       = Some (8798731850114663 / 8796093022208)
   \<and> map_option (\<lambda>u. 1000 + creditTotal (transactions (wallet u))
                         - debitTotal (transactions (wallet u)))
         (users (run emptyDb reqsTopUps) 1)
       = Some (36039605658069657191 / 36028797018963968)
   \<and> map_option (\<lambda>u. unrounded 1000 (transactions (wallet u)))
         (users (run emptyDb reqsTopUps) 1) = Some False"
proof -
  have e: "users (run emptyDb reqsApproved) 2 = Some chargedBorrower"
    by (simp add: run_approved approvedDb_def)
  have n: "unrounded 1000 (transactions (wallet chargedBorrower))"
    by (simp add: chargedBorrower_def paymentTx_def signedAmount_def jsAdd_def toDouble_Ints)
  have r: "ledgerInv (run emptyDb reqsApproved)"
    using ledger_balance_replays_history [of emptyDb "ReqRegister 1" reqsApproved] by simp
  have o: "balance (wallet chargedBorrower)
       = 1000 + creditTotal (transactions (wallet chargedBorrower))
              - debitTotal (transactions (wallet chargedBorrower))"
    using ledger_balance_replays_history [of emptyDb "ReqRegister 1" reqsApproved 2
        chargedBorrower] e n
    by simp
  have a: "ledgerInv approvedDb"
    using r by (simp add: run_approved)
  then have c: "ledgerInv (step approvedDb (cancelRequest 0))"
    using ledger_balance_replays_history [of approvedDb "cancelRequest 0" "[]"] by simp
  have t: "ledgerInv (run emptyDb reqsTopUps)"
    using ledger_balance_replays_history [of emptyDb "ReqRegister 1" reqsTopUps] by simp
  have v: "balance (wallet chargedBorrower) = 275"
    "debitTotal (transactions (wallet chargedBorrower)) = 725"
    by (simp_all add: chargedBorrower_def paymentTx_def debitTotal_def)
  have t1: "map_option (balance \<circ> wallet) (users (run emptyDb reqsTopUps) 1)
       = Some (8798731850114663 / 8796093022208)"
    by code_simp
  have t2: "map_option (\<lambda>u. replay 1000 (transactions (wallet u)))
         (users (run emptyDb reqsTopUps) 1)
       = Some (8798731850114663 / 8796093022208)"
    by code_simp
  have t3: "map_option (\<lambda>u. 1000 + creditTotal (transactions (wallet u))
                         - debitTotal (transactions (wallet u)))
         (users (run emptyDb reqsTopUps) 1)
       = Some (36039605658069657191 / 36028797018963968)"
    by code_simp
  have t4: "map_option (\<lambda>u. unrounded 1000 (transactions (wallet u)))
         (users (run emptyDb reqsTopUps) 1) = Some False"
    by code_simp
  from e n o v a c t t1 t2 t3 t4 show ?thesis
    by (intro conjI)
qed




text \<open>
  Claim C5: a status-update request with target \<open>completed\<close> on a booking whose
  status is already \<open>completed\<close> performs no ledger mutation; the crediting branch
  runs only when the current status is \<open>active\<close>. For every stored booking whose
  status is not \<open>active\<close> (so in particular for a completed one) such a request
  leaves the whole database, and with it every wallet, as it was.
\<close>

theorem completed_request_outside_active_changes_nothing:
  assumes "findBooking d b = Some booking" and "status booking \<noteq> Active"
  shows "snd (updateBookingStatus d reqUser b ''completed'' note) = d"
  using assms by (simp add: updateBookingStatus_def saveBooking_same)

theorem completed_request_outside_active_changes_nothing_witness:
  "map_option status (findBooking (run emptyDb reqsCompleted) 0) = Some Completed
   \<and> map_option (balance \<circ> wallet) (users (run emptyDb reqsCompleted) 1) = Some 1475
   \<and> snd (updateBookingStatus (run emptyDb reqsCompleted) 2 0 ''completed'' None)
       = run emptyDb reqsCompleted"
proof -
  have s: "map_option status (findBooking (run emptyDb reqsCompleted) 0) = Some Completed"
    by code_simp
  have l: "map_option (balance \<circ> wallet) (users (run emptyDb reqsCompleted) 1) = Some 1475"
    by code_simp
  from s obtain booking where f: "findBooking (run emptyDb reqsCompleted) 0 = Some booking"
    and c: "status booking = Completed"
    by (cases "findBooking (run emptyDb reqsCompleted) 0") auto
  from c have "status booking \<noteq> Active" by simp
  with f show ?thesis
    using s l completed_request_outside_active_changes_nothing
      [of "run emptyDb reqsCompleted" 0 booking 2 None]
    by simp
qed

text \<open>
  Claim C6: a status-update request with target \<open>approved\<close> on a pending booking
  fails with Forbidden and changes nothing if the requester is not the lender; if
  the requester is the lender, the borrower's wallet is debited exactly
  \<open>pricing.totalAmount\<close> (\<^verbatim>\<open>$inc\<close> adds \<open>- totalAmount\<close> to the balance, the sum
  being the nearest double) with one debit transaction recorded,
  \<open>payment.depositPaid\<close> becomes true, the item's \<open>isAvailable\<close> becomes false and
  one timeline entry is appended. The booking's lender, borrower and item
  documents exist, and the stored dates satisfy the schema's
  \<open>startDate < endDate\<close>: all of this but the item's existence holds for every
  booking of every reachable state (\<open>refsInv_reachable\<close>).
\<close>

theorem approve_pending_booking:
  assumes "findBooking d b = Some booking" and "status booking = Pending"
    and "users d (lender booking) = Some lenderDoc"
  shows "(reqUser \<noteq> lender booking \<longrightarrow>
            updateBookingStatus d reqUser b ''approved'' note = (Failure Forbidden, d))
       \<and> (reqUser = lender booking \<and> users d (borrower booking) = Some borrowerDoc
            \<and> items d (item booking) = Some itemDoc \<and> startDate booking < endDate booking \<longrightarrow>
            updateBookingStatus d reqUser b ''approved'' note =
              (Success,
               \<lparr>users = (users d)(borrower booking \<mapsto>
                   borrowerDoc\<lparr>wallet :=
                     \<lparr>balance = jsAdd (balance (wallet borrowerDoc))
                                       (- totalAmount (pricing booking)),
                      transactions = transactions (wallet borrowerDoc)
                        @ [\<lparr>tx_type = Debit, amount = totalAmount (pricing booking),
                            description = BookingPayment (title itemDoc),
                            bookingId = Some b\<rparr>]\<rparr>\<rparr>),
                items = (items d)(item booking \<mapsto> itemDoc\<lparr>isAvailable := False\<rparr>),
                bookings = (bookings d)[b := booking
                   \<lparr>payment := (payment booking)\<lparr>depositPaid := True\<rparr>,
                    status := Approved,
                    timeline := timeline booking
                      @ [(''approved'', Note (noteOr note ''Booking approved by lender''))]\<rparr>]\<rparr>))"
  using assms
  by (simp add: updateBookingStatus_def approveBranch_def Let_def walletUpdate_Some
      setAvailable_Some saveBooking_def preSaveOk_iff addTimelineEntry_def db_updates
      walletAfter_def)

theorem approve_pending_booking_witness:
  "updateBookingStatus requestedDb 2 0 ''approved'' None = (Failure Forbidden, requestedDb)
   \<and> updateBookingStatus requestedDb 1 0 ''approved'' None = (Success, approvedDb)
   \<and> balance (wallet newUser) = 1000 \<and> balance (wallet chargedBorrower) = 275"
proof -
  have f: "findBooking requestedDb 0 = Some pendingBooking"
    by (simp add: requestedDb_def findBooking_def)
  have p: "status pendingBooking = Pending"
    by (simp add: pendingBooking_def)
  have l: "users requestedDb (lender pendingBooking) = Some newUser"
    by (simp add: requestedDb_def pendingBooking_def)
  show ?thesis
    using approve_pending_booking [OF f p l, of 2 None newUser drill]
      approve_pending_booking [OF f p l, of 1 None newUser drill]
    by (simp add: example_defs noteOr_def jsAdd_def toDouble_Ints)
qed

text \<open>
  Claim C3: for every booking whose \<open>payment.depositPaid\<close> flag is true, every
  status-update request with target \<open>cancelled\<close> issued by the lender credits the
  borrower's wallet with \<open>pricing.totalAmount\<close> and appends one credit transaction,
  whatever the booking's current status; two successive cancellation requests
  credit the borrower twice \<open>totalAmount\<close>: two credit transactions of that amount,
  and the balance increased by it twice (each \<^verbatim>\<open>$inc\<close> a sum of doubles, which is
  the balance plus \<open>2 * totalAmount\<close> when neither sum is rounded). The booking's
  lender, borrower and item documents exist (the first two always do in a
  reachable state, \<open>refsInv_reachable\<close>).
\<close>

theorem cancel_credits_total_every_time:
  assumes "findBooking d b = Some booking" and "depositPaid (payment booking)"
    and "users d (lender booking) = Some lenderDoc"
    and "users d (borrower booking) = Some borrowerDoc"
    and "items d (item booking) = Some itemDoc"
  shows "users (snd (updateBookingStatus d (lender booking) b ''cancelled'' note))
           = (users d)(borrower booking \<mapsto>
               borrowerDoc\<lparr>wallet :=
                 \<lparr>balance = jsAdd (balance (wallet borrowerDoc)) (totalAmount (pricing booking)),
                  transactions = transactions (wallet borrowerDoc)
                    @ [refundTx b booking itemDoc]\<rparr>\<rparr>)
       \<and> users (snd (updateBookingStatus
                       (snd (updateBookingStatus d (lender booking) b ''cancelled'' note))
                       (lender booking) b ''cancelled'' note'))
           = (users d)(borrower booking \<mapsto>
               borrowerDoc\<lparr>wallet :=
                 \<lparr>balance = jsAdd (jsAdd (balance (wallet borrowerDoc))
                                         (totalAmount (pricing booking)))
                                  (totalAmount (pricing booking)),
                  transactions = transactions (wallet borrowerDoc)
                    @ [refundTx b booking itemDoc, refundTx b booking itemDoc]\<rparr>\<rparr>)
       \<and> creditTotal [refundTx b booking itemDoc, refundTx b booking itemDoc]
           = 2 * totalAmount (pricing booking)
       \<and> (jsAdd (balance (wallet borrowerDoc)) (totalAmount (pricing booking))
             = balance (wallet borrowerDoc) + totalAmount (pricing booking)
           \<and> jsAdd (balance (wallet borrowerDoc) + totalAmount (pricing booking))
                 (totalAmount (pricing booking))
             = balance (wallet borrowerDoc) + 2 * totalAmount (pricing booking)
           \<longrightarrow> jsAdd (jsAdd (balance (wallet borrowerDoc)) (totalAmount (pricing booking)))
                 (totalAmount (pricing booking))
             = balance (wallet borrowerDoc) + 2 * totalAmount (pricing booking))"
proof -
  define d1 where "d1 = snd (updateBookingStatus d (lender booking) b ''cancelled'' note)"
  define u1 where "u1 = walletAfter borrowerDoc (totalAmount (pricing booking))
                          (refundTx b booking itemDoc)"
  note s1 = cancel_with_deposit_state [OF assms d1_def]
  have us1: "users d1 = (users d)(borrower booking \<mapsto> u1)"
    using s1(1) by (simp add: u1_def)
  obtain booking' where f: "findBooking d1 b = Some booking'"
    and dp: "depositPaid (payment booking')"
    and eqs: "lender booking' = lender booking" "borrower booking' = borrower booking"
             "item booking' = item booking" "pricing booking' = pricing booking"
    using s1(3) by blast
  have "\<exists>l. users d1 (lender booking') = Some l"
    using assms(3) by (simp add: us1 eqs)
  then obtain l where l: "users d1 (lender booking') = Some l" ..
  have b1: "users d1 (borrower booking') = Some u1"
    by (simp add: us1 eqs)
  have i1: "items d1 (item booking') = Some (itemDoc\<lparr>isAvailable := True\<rparr>)"
    using s1(2) by (simp add: eqs)
  have "users (snd (updateBookingStatus d1 (lender booking') b ''cancelled'' note'))
          = (users d1)(borrower booking' \<mapsto>
              walletAfter u1 (totalAmount (pricing booking'))
                (refundTx b booking' (itemDoc\<lparr>isAvailable := True\<rparr>)))"
    by (rule cancel_with_deposit_state(1) [OF f dp l b1 i1 refl])
  then have us2: "users (snd (updateBookingStatus d1 (lender booking) b ''cancelled'' note'))
          = (users d)(borrower booking \<mapsto>
              walletAfter u1 (totalAmount (pricing booking)) (refundTx b booking itemDoc))"
    by (simp add: eqs us1 refundTx_def)
  have "creditTotal [refundTx b booking itemDoc, refundTx b booking itemDoc]
          = 2 * totalAmount (pricing booking)"
    by (simp add: creditTotal_def refundTx_def)
  then show ?thesis
    using us1 us2 by (simp add: d1_def [symmetric] u1_def walletAfter_def)
qed

theorem cancel_credits_total_every_time_witness:
  "map_option (balance \<circ> wallet) (users approvedDb 2) = Some 275
   \<and> map_option (balance \<circ> wallet)
       (users (snd (updateBookingStatus approvedDb 1 0 ''cancelled'' None)) 2) = Some 1000
   \<and> map_option (balance \<circ> wallet)
       (users (snd (updateBookingStatus
                      (snd (updateBookingStatus approvedDb 1 0 ''cancelled'' None))
                      1 0 ''cancelled'' None)) 2) = Some 1725"
proof -
  have f: "findBooking approvedDb 0 = Some approvedBooking"
    by (simp add: approvedDb_def findBooking_def)
  have p: "depositPaid (payment approvedBooking)"
    by (simp add: approvedBooking_def)
  have l: "users approvedDb (lender approvedBooking) = Some newUser"
    by (simp add: approvedDb_def approvedBooking_def pendingBooking_def)
  have u: "users approvedDb (borrower approvedBooking) = Some chargedBorrower"
    by (simp add: approvedDb_def approvedBooking_def pendingBooking_def)
  have i: "items approvedDb (item approvedBooking) = Some (drill\<lparr>isAvailable := False\<rparr>)"
    by (simp add: approvedDb_def approvedBooking_def pendingBooking_def)
  have n: "lender approvedBooking = 1" "borrower approvedBooking = 2"
    "totalAmount (pricing approvedBooking) = 725"
    by (simp_all add: approvedBooking_def pendingBooking_def)
  show ?thesis
    using cancel_credits_total_every_time [OF f p l u i, of None None]
    by (simp add: n) (simp add: approvedDb_def chargedBorrower_def jsAdd_def toDouble_Ints)
qed

text \<open>
  Claim C7: a booking-creation request whose borrower's wallet balance is strictly
  less than the computed \<open>totalAmount\<close> fails with InsufficientFunds, persists no
  booking and mutates no ledger. Whenever the balance is below the total computed
  from the item's terms the request fails and leaves the database unchanged; when
  the request reaches the pricing step (the owner's document exists, the requester
  is not the owner, the item is flagged available and no booking conflicts) the
  failure is InsufficientFunds; and no creation request ever changes a wallet.
\<close>

theorem insufficient_balance_blocks_creation:
  "(items d itemId = Some itemDoc \<and> users d reqUser = Some borrowerDoc
     \<and> balance (wallet borrowerDoc)
         < totalAmount (pricing (calculatePricing
             (newBooking itemId reqUser (owner itemDoc) s e)
             (itemDailyPrice itemDoc) (itemValue itemDoc) (depositPercentage itemDoc)))
     \<longrightarrow> (\<exists>err. createBooking d reqUser itemId s e = (Failure err, d))
         \<and> (users d (owner itemDoc) \<noteq> None \<and> owner itemDoc \<noteq> reqUser
              \<and> isAvailable itemDoc \<and> conflictingBooking d itemId s e = None
             \<longrightarrow> createBooking d reqUser itemId s e = (Failure InsufficientFunds, d)))
   \<and> users (snd (createBooking d reqUser itemId s e)) = users d"
proof -
  have "users (snd (createBooking d reqUser itemId s e)) = users d"
    by (rule users_createBooking)
  moreover have "\<exists>err. createBooking d reqUser itemId s e = (Failure err, d)"
    if "items d itemId = Some itemDoc" and "users d reqUser = Some borrowerDoc"
      and "balance (wallet borrowerDoc)
         < totalAmount (pricing (calculatePricing
             (newBooking itemId reqUser (owner itemDoc) s e)
             (itemDailyPrice itemDoc) (itemValue itemDoc) (depositPercentage itemDoc)))"
    using that by (cases "users d (owner itemDoc)") (simp_all add: createBooking_def Let_def)
  moreover have "createBooking d reqUser itemId s e = (Failure InsufficientFunds, d)"
    if "items d itemId = Some itemDoc" and "users d reqUser = Some borrowerDoc"
      and "balance (wallet borrowerDoc)
         < totalAmount (pricing (calculatePricing
             (newBooking itemId reqUser (owner itemDoc) s e)
             (itemDailyPrice itemDoc) (itemValue itemDoc) (depositPercentage itemDoc)))"
      and "users d (owner itemDoc) \<noteq> None" and "owner itemDoc \<noteq> reqUser"
      and "isAvailable itemDoc" and "conflictingBooking d itemId s e = None"
    using that by (cases "users d (owner itemDoc)") (simp_all add: createBooking_def Let_def)
  ultimately show ?thesis by blast
qed

theorem insufficient_balance_blocks_creation_witness:
  "balance (wallet newUser) = 1000
   \<and> totalAmount (pricing (calculatePricing (newBooking 8 2 1 0 fiveDays) 100 10000 20)) = 2525
   \<and> createBooking cameraDb 2 8 0 fiveDays = (Failure InsufficientFunds, cameraDb)"
proof -
  have t: "totalAmount (pricing (calculatePricing (newBooking 8 2 1 0 fiveDays) 100 10000 20))
             = 2525"
    by (simp add: fiveDays_def eval_defs)
  have i: "items cameraDb 8 = Some camera" and u: "users cameraDb 2 = Some newUser"
    and o: "users cameraDb (owner camera) \<noteq> None" "owner camera \<noteq> 2" "isAvailable camera"
    and c: "conflictingBooking cameraDb 8 0 fiveDays = None"
    by (simp_all add: cameraDb_def camera_def conflictingBooking_def)
  have b: "balance (wallet newUser)
         < totalAmount (pricing (calculatePricing
             (newBooking 8 2 (owner camera) 0 fiveDays)
             (itemDailyPrice camera) (itemValue camera) (depositPercentage camera)))"
    using t by (simp add: camera_def newUser_def)
  show ?thesis
    using insufficient_balance_blocks_creation [of cameraDb 8 camera 2 newUser 0 fiveDays]
      i u o c b t
    by (simp add: newUser_def)
qed

text \<open>
  Claim C8, as stated: a booking-creation request fails with DateConflict exactly
  when some existing booking on the same item with status approved or active
  overlaps the proposed range. It fails where the item is flagged unavailable,
  which approval itself brings about: after the approval of a booking for days 0
  to 5 a request by user 3 for the same days meets a conflicting booking, yet the
  handler answers \<^verbatim>\<open>Item is not available for booking\<close> before it runs the
  conflict query.
\<close>

theorem unavailable_item_preempts_date_conflict:
  "dateConflict (run emptyDb (reqsApproved @ [ReqRegister 3])) 7 0 fiveDays
   \<and> fst (createBooking (run emptyDb (reqsApproved @ [ReqRegister 3])) 3 7 0 fiveDays)
       = Failure ItemUnavailable
   \<and> fst (createBooking (run emptyDb (reqsApproved @ [ReqRegister 3])) 3 7 0 fiveDays)
       \<noteq> Failure DateConflict"
  by code_simp

text \<open>
  Claim C8, amended: a booking-creation request on an existing item fails with
  DateConflict exactly when the item's owner document exists, the requester is not
  the owner, the item is flagged available, and some existing booking on the same
  item with status in \<open>{approved, active}\<close> satisfies
  \<open>existing.start \<le> proposed.end\<close> and \<open>existing.end \<ge> proposed.start\<close>
  (touching boundaries conflict); bookings with status pending, completed or
  cancelled never block the request.
\<close>

theorem date_conflict_when_reached:
  assumes "items d itemId = Some itemDoc"
  shows "(fst (createBooking d reqUser itemId s e) = Failure DateConflict)
       = (users d (owner itemDoc) \<noteq> None \<and> owner itemDoc \<noteq> reqUser \<and> isAvailable itemDoc
          \<and> dateConflict d itemId s e)"
proof (cases "users d (owner itemDoc)")
  case None
  then show ?thesis using assms by (simp add: createBooking_def)
next
  case (Some ownerDoc)
  note o = this
  show ?thesis
  proof (cases "conflictingBooking d itemId s e")
    case None
    then have "\<not> dateConflict d itemId s e"
      using conflictingBooking_iff [of d itemId s e] by simp
    then show ?thesis using assms o None
      by (simp add: createBooking_def Let_def split: option.splits)
  next
    case (Some a)
    then have "dateConflict d itemId s e"
      using conflictingBooking_iff [of d itemId s e] by simp
    then show ?thesis using assms o Some
      by (simp add: createBooking_def Let_def)
  qed
qed

theorem date_conflict_when_reached_witness:
  "items (run emptyDb (reqsCompeting @ [cancelRequest 1])) 7 = Some drill
   \<and> map_option status (findBooking (run emptyDb (reqsCompeting @ [cancelRequest 1])) 0)
       = Some Approved
   \<and> dateConflict (run emptyDb (reqsCompeting @ [cancelRequest 1])) 7 fiveDays sevenDays
   \<and> fst (createBooking (run emptyDb (reqsCompeting @ [cancelRequest 1])) 3 7 fiveDays sevenDays)
       = Failure DateConflict
   \<and> \<not> dateConflict (run emptyDb (reqsCompeting @ [cancelRequest 1])) 7 (fiveDays + 1) sevenDays
   \<and> fst (createBooking (run emptyDb (reqsCompeting @ [cancelRequest 1])) 3 7 (fiveDays + 1) sevenDays)
       \<noteq> Failure DateConflict"
proof -
  have i: "items (run emptyDb (reqsCompeting @ [cancelRequest 1])) 7 = Some drill"
    by code_simp
  have s: "map_option status (findBooking (run emptyDb (reqsCompeting @ [cancelRequest 1])) 0)
       = Some Approved"
    by code_simp
  have o: "users (run emptyDb (reqsCompeting @ [cancelRequest 1])) (owner drill) \<noteq> None"
    "owner drill \<noteq> 3" "isAvailable drill"
    by code_simp+
  have c: "dateConflict (run emptyDb (reqsCompeting @ [cancelRequest 1])) 7 fiveDays sevenDays"
    "\<not> dateConflict (run emptyDb (reqsCompeting @ [cancelRequest 1])) 7 (fiveDays + 1) sevenDays"
    by code_simp+
  show ?thesis
    using date_conflict_when_reached [OF i, of 3 fiveDays sevenDays]
      date_conflict_when_reached [OF i, of 3 "fiveDays + 1" sevenDays] i s o c
    by simp
qed

text \<open>
  Claim C10: an extension request succeeds only if the requester is the item's
  owner, the booking status is approved or active, the new end date is strictly
  after the current end date and the borrower's balance is at least
  \<open>additionalCost\<close>; with the other conditions met, a lower balance gives
  InsufficientFunds. On success, with additionalDays = ceiling((newEnd - oldEnd) /
  1 day) and additionalCost = additionalDays * dailyPrice, the fields \<open>totalDays\<close>,
  \<open>subtotal\<close>, \<open>totalAmount\<close> and \<open>lenderEarnings\<close> are incremented by their delta
  while \<open>depositAmount\<close> and \<open>platformFee\<close> are unchanged, the borrower is debited
  \<open>additionalCost\<close> with one debit transaction, and one timeline entry is appended.
  The difference, the quotient, the product and the sums are the code's, each the
  nearest double. For dates at most \<open>2\<^sup>5\<^sup>3\<close> milliseconds apart the rounding
  does not show in \<open>additionalDays\<close>, which is the ceiling of the exact quotient;
  \<open>additionalCost\<close> is the exact product where that is a whole number of
  magnitude at most \<open>2\<^sup>5\<^sup>3\<close>.
\<close>

theorem extension_effects:
  "(extendRentalPeriod d reqUser b newEnd = (Success, d') \<longrightarrow>
      (\<exists>booking itemDoc borrowerDoc booking'.
         findBooking d b = Some booking \<and> items d (item booking) = Some itemDoc
         \<and> users d (borrower booking) = Some borrowerDoc
         \<and> owner itemDoc = reqUser
         \<and> (status booking = Approved \<or> status booking = Active)
         \<and> endDate booking < newEnd
         \<and> additionalCostFor booking newEnd \<le> balance (wallet borrowerDoc)
         \<and> users d' = (users d)(borrower booking \<mapsto>
              borrowerDoc\<lparr>wallet :=
                \<lparr>balance = jsAdd (balance (wallet borrowerDoc))
                                  (- additionalCostFor booking newEnd),
                 transactions = transactions (wallet borrowerDoc)
                   @ [\<lparr>tx_type = Debit, amount = additionalCostFor booking newEnd,
                       description = ExtensionPayment (title itemDoc),
                       bookingId = Some b\<rparr>]\<rparr>\<rparr>)
         \<and> items d' = items d
         \<and> bookings d' = (bookings d)[b := booking']
         \<and> endDate booking' = newEnd
         \<and> totalDays (pricing booking')
             = jsAdd (totalDays (pricing booking)) (additionalDaysFor booking newEnd)
         \<and> subtotal (pricing booking')
             = jsAdd (subtotal (pricing booking)) (additionalCostFor booking newEnd)
         \<and> totalAmount (pricing booking')
             = jsAdd (totalAmount (pricing booking)) (additionalCostFor booking newEnd)
         \<and> lenderEarnings (pricing booking')
             = jsAdd (lenderEarnings (pricing booking)) (additionalCostFor booking newEnd)
         \<and> depositAmount (pricing booking') = depositAmount (pricing booking)
         \<and> platformFee (pricing booking') = platformFee (pricing booking)
         \<and> dailyPrice (pricing booking') = dailyPrice (pricing booking)
         \<and> timeline booking' = timeline booking
             @ [(''extended'', ExtendedNote (additionalDaysFor booking newEnd) newEnd)]
         \<and> status booking' = status booking \<and> payment booking' = payment booking))
   \<and> (findBooking d b = Some booking \<and> items d (item booking) = Some itemDoc
        \<and> users d (borrower booking) = Some borrowerDoc \<and> owner itemDoc = reqUser
        \<and> (status booking = Approved \<or> status booking = Active)
        \<and> startDate booking < newEnd \<and> endDate booking < newEnd
        \<and> balance (wallet borrowerDoc) < additionalCostFor booking newEnd
      \<longrightarrow> extendRentalPeriod d reqUser b newEnd = (Failure ExtensionInsufficientFunds, d))
   \<and> (endDate booking < newEnd \<and> newEnd - endDate booking \<le> 2 ^ 53
      \<longrightarrow> additionalDaysFor booking newEnd
            = of_int \<lceil>(of_int (newEnd - endDate booking) :: rat) / (24 * 60 * 60 * 1000)\<rceil>)
   \<and> (wholeNumber (additionalDaysFor booking newEnd * dailyPrice (pricing booking))
      \<longrightarrow> additionalCostFor booking newEnd
            = additionalDaysFor booking newEnd * dailyPrice (pricing booking))"
proof (intro conjI impI)
  assume ok: "extendRentalPeriod d reqUser b newEnd = (Success, d')"
  then obtain booking where f: "findBooking d b = Some booking"
    by (cases "findBooking d b") (simp_all add: extendRentalPeriod_def)
  from ok f obtain itemDoc where i: "items d (item booking) = Some itemDoc"
    by (cases "items d (item booking)") (simp_all add: extendRentalPeriod_def)
  have "\<exists>borrowerDoc. users d (borrower booking) = Some borrowerDoc"
  proof (cases "users d (borrower booking)")
    case None
    then show ?thesis using ok f i
      by (simp add: extendRentalPeriod_def Let_def split: if_splits)
  qed simp
  then obtain borrowerDoc where u: "users d (borrower booking) = Some borrowerDoc" ..
  note e = extend_unfold [OF f i u, of reqUser newEnd]
  from ok have c: "owner itemDoc = reqUser" "status booking = Approved \<or> status booking = Active"
      "\<not> newEnd \<le> endDate booking"
      "\<not> balance (wallet borrowerDoc) < additionalCostFor booking newEnd"
    unfolding e by (simp_all split: if_splits)
  from ok have c': "\<not> newEnd \<le> startDate booking"
    unfolding e by (simp split: if_splits)
  from ok c c' have d': "d' = \<lparr>users = (users d)(borrower booking \<mapsto>
                 walletAfter borrowerDoc (- additionalCostFor booking newEnd)
                   (extensionTx b booking itemDoc newEnd)),
             items = items d,
             bookings = (bookings d)[b := extendedBooking booking newEnd]\<rparr>"
    unfolding e by simp
  show "\<exists>booking itemDoc borrowerDoc booking'.
         findBooking d b = Some booking \<and> items d (item booking) = Some itemDoc
         \<and> users d (borrower booking) = Some borrowerDoc
         \<and> owner itemDoc = reqUser
         \<and> (status booking = Approved \<or> status booking = Active)
         \<and> endDate booking < newEnd
         \<and> additionalCostFor booking newEnd \<le> balance (wallet borrowerDoc)
         \<and> users d' = (users d)(borrower booking \<mapsto>
              borrowerDoc\<lparr>wallet :=
                \<lparr>balance = jsAdd (balance (wallet borrowerDoc))
                                  (- additionalCostFor booking newEnd),
                 transactions = transactions (wallet borrowerDoc)
                   @ [\<lparr>tx_type = Debit, amount = additionalCostFor booking newEnd,
                       description = ExtensionPayment (title itemDoc),
                       bookingId = Some b\<rparr>]\<rparr>\<rparr>)
         \<and> items d' = items d
         \<and> bookings d' = (bookings d)[b := booking']
         \<and> endDate booking' = newEnd
         \<and> totalDays (pricing booking')
             = jsAdd (totalDays (pricing booking)) (additionalDaysFor booking newEnd)
         \<and> subtotal (pricing booking')
             = jsAdd (subtotal (pricing booking)) (additionalCostFor booking newEnd)
         \<and> totalAmount (pricing booking')
             = jsAdd (totalAmount (pricing booking)) (additionalCostFor booking newEnd)
         \<and> lenderEarnings (pricing booking')
             = jsAdd (lenderEarnings (pricing booking)) (additionalCostFor booking newEnd)
         \<and> depositAmount (pricing booking') = depositAmount (pricing booking)
         \<and> platformFee (pricing booking') = platformFee (pricing booking)
         \<and> dailyPrice (pricing booking') = dailyPrice (pricing booking)
         \<and> timeline booking' = timeline booking
             @ [(''extended'', ExtendedNote (additionalDaysFor booking newEnd) newEnd)]
         \<and> status booking' = status booking \<and> payment booking' = payment booking"
    apply (rule exI [of _ booking], rule exI [of _ itemDoc], rule exI [of _ borrowerDoc])
    apply (rule exI [of _ "extendedBooking booking newEnd"])
    using f i u c by (simp add: d' walletAfter_def extensionTx_def extendedBooking_def)
next
  assume a: "findBooking d b = Some booking \<and> items d (item booking) = Some itemDoc
        \<and> users d (borrower booking) = Some borrowerDoc \<and> owner itemDoc = reqUser
        \<and> (status booking = Approved \<or> status booking = Active)
        \<and> startDate booking < newEnd \<and> endDate booking < newEnd
        \<and> balance (wallet borrowerDoc) < additionalCostFor booking newEnd"
  then have "findBooking d b = Some booking" "items d (item booking) = Some itemDoc"
    "users d (borrower booking) = Some borrowerDoc" by simp_all
  note e = extend_unfold [OF this, of reqUser newEnd]
  from a show "extendRentalPeriod d reqUser b newEnd = (Failure ExtensionInsufficientFunds, d)"
    unfolding e by auto
next
  assume "endDate booking < newEnd \<and> newEnd - endDate booking \<le> 2 ^ 53"
  then have "daysBetween (endDate booking) newEnd
               = of_int \<lceil>(of_int (newEnd - endDate booking) :: rat) / 86400000\<rceil>"
    by (simp add: daysBetween_exact)
  then show "additionalDaysFor booking newEnd
            = of_int \<lceil>(of_int (newEnd - endDate booking) :: rat) / (24 * 60 * 60 * 1000)\<rceil>"
    by (simp add: additionalDaysFor_eq)
next
  assume "wholeNumber (additionalDaysFor booking newEnd * dailyPrice (pricing booking))"
  then show "additionalCostFor booking newEnd
            = additionalDaysFor booking newEnd * dailyPrice (pricing booking)"
    by (simp add: additionalCostFor_def jsMul_def toDouble_wholeNumber)
qed

theorem extension_effects_witness:
  "extendRentalPeriod approvedDb 1 0 sevenDays = (Success, extendedDb)
   \<and> additionalDaysFor approvedBooking sevenDays = 2
   \<and> additionalCostFor approvedBooking sevenDays = 200
   \<and> items extendedDb = items approvedDb
   \<and> additionalCostFor approvedBooking tenDays = 500
   \<and> extendRentalPeriod approvedDb 1 0 tenDays = (Failure ExtensionInsufficientFunds, approvedDb)
   \<and> endDate approvedBooking < sevenDays \<and> sevenDays - endDate approvedBooking \<le> 2 ^ 53
   \<and> additionalDaysFor approvedBooking sevenDays
       = of_int \<lceil>(of_int (sevenDays - endDate approvedBooking) :: rat) / (24 * 60 * 60 * 1000)\<rceil>
   \<and> wholeNumber (additionalDaysFor approvedBooking sevenDays * dailyPrice (pricing approvedBooking))
   \<and> additionalCostFor approvedBooking sevenDays
       = additionalDaysFor approvedBooking sevenDays * dailyPrice (pricing approvedBooking)"
proof -
  have f: "findBooking approvedDb 0 = Some approvedBooking"
    by (simp add: approvedDb_def findBooking_def)
  have i: "items approvedDb (item approvedBooking) = Some (drill\<lparr>isAvailable := False\<rparr>)"
    and u: "users approvedDb (borrower approvedBooking) = Some chargedBorrower"
    by (simp_all add: approvedDb_def approvedBooking_def pendingBooking_def)
  have n: "additionalDaysFor approvedBooking sevenDays = 2"
    "additionalCostFor approvedBooking sevenDays = 200"
    "additionalCostFor approvedBooking tenDays = 500"
    by (simp_all add: additionalCostFor_def additionalDaysFor_def example_defs Math_ceil_def
        js_defs toDouble_Ints ceiling_rat_numeral)
  have ok: "extendRentalPeriod approvedDb 1 0 sevenDays = (Success, extendedDb)"
    by (simp add: extend_unfold [OF f i u] n walletAfter_def extensionTx_def extendedBooking_def)
      (simp add: example_defs jsAdd_def toDouble_Ints)
  have c: "owner (drill\<lparr>isAvailable := False\<rparr>) = 1" "status approvedBooking = Approved"
    "startDate approvedBooking < tenDays" "endDate approvedBooking < tenDays"
    "balance (wallet chargedBorrower) < additionalCostFor approvedBooking tenDays"
    by (simp_all add: n) (simp_all add: example_defs)
  have g: "endDate approvedBooking < sevenDays" "sevenDays - endDate approvedBooking \<le> 2 ^ 53"
    "wholeNumber (additionalDaysFor approvedBooking sevenDays * dailyPrice (pricing approvedBooking))"
    by (simp_all add: n) (simp_all add: example_defs wholeNumber_def)
  note t = extension_effects [of approvedDb 1 0 sevenDays extendedDb approvedBooking
      "drill\<lparr>isAvailable := False\<rparr>" chargedBorrower]
  have x: "additionalDaysFor approvedBooking sevenDays
       = of_int \<lceil>(of_int (sevenDays - endDate approvedBooking) :: rat) / (24 * 60 * 60 * 1000)\<rceil>"
    "additionalCostFor approvedBooking sevenDays
       = additionalDaysFor approvedBooking sevenDays * dailyPrice (pricing approvedBooking)"
    using t g by blast+
  have y: "extendRentalPeriod approvedDb 1 0 tenDays
             = (Failure ExtensionInsufficientFunds, approvedDb)"
    using extension_effects [of approvedDb 1 0 tenDays _ approvedBooking
        "drill\<lparr>isAvailable := False\<rparr>" chargedBorrower] f i u c
    by simp
  have z: "items extendedDb = items approvedDb"
    using t ok by blast
  from ok n z y g x show ?thesis
    by (intro conjI)
qed

text \<open>
  Claim C2: \<open>cancelled\<close> is reachable only from \<open>pending\<close> and \<open>approved\<close>; no
  sequence of transition requests moves an active or completed booking into
  \<open>cancelled\<close>. The handler's \<open>cancelled\<close> branch does not look at the current
  status: the lender's cancellation request moves an active booking, and a
  completed one, to \<open>cancelled\<close>, and refunds the full \<open>totalAmount\<close> on top of the
  deposit already returned at completion (the borrower paid 725 out of 1000, got
  200 back at completion and holds 1200 after the cancellation).
\<close>

theorem cancel_reaches_active_and_completed:
  "map_option status (findBooking (run emptyDb reqsActive) 0) = Some Active
   \<and> map_option status (findBooking (run emptyDb (reqsActive @ [cancelRequest 0])) 0)
       = Some Cancelled
   \<and> map_option status (findBooking (run emptyDb reqsCompleted) 0) = Some Completed
   \<and> map_option (balance \<circ> wallet) (users (run emptyDb reqsCompleted) 2) = Some 475
   \<and> map_option status (findBooking (run emptyDb (reqsCompleted @ [cancelRequest 0])) 0)
       = Some Cancelled
   \<and> map_option (balance \<circ> wallet) (users (run emptyDb (reqsCompleted @ [cancelRequest 0])) 2)
       = Some 1200"
  by code_simp

text \<open>
  Claim C9: a cancellation sets the item's \<open>isAvailable\<close> flag to true only if the
  cancelled booking had reserved the item; cancelling a booking that never
  reserved it leaves the flag unchanged. The handler sets the flag to true on
  every cancellation: with booking 0 approved (the item flagged unavailable) and
  booking 1 of another borrower still pending and unpaid, cancelling booking 1
  flags the item available while booking 0 stays approved.
\<close>

theorem cancelling_unapproved_booking_reopens_item:
  "map_option isAvailable (items (run emptyDb reqsCompeting) 7) = Some False
   \<and> map_option status (findBooking (run emptyDb reqsCompeting) 0) = Some Approved
   \<and> map_option status (findBooking (run emptyDb reqsCompeting) 1) = Some Pending
   \<and> map_option (depositPaid \<circ> payment) (findBooking (run emptyDb reqsCompeting) 1) = Some False
   \<and> map_option isAvailable (items (run emptyDb (reqsCompeting @ [cancelRequest 1])) 7) = Some True
   \<and> map_option status (findBooking (run emptyDb (reqsCompeting @ [cancelRequest 1])) 0)
       = Some Approved"
  by code_simp

end
